theory Spec2Isabelle
  imports Main "HOL-Library.Char_ord" "HOL-Library.List_Lexorder"
begin

section \<open>Strings\<close>

text \<open>
  Python strings are modelled as \<open>string\<close> (lists of 8-bit characters). All keywords the
  program searches for are lower-case ASCII, and \<open>str.lower\<close> is modelled on the ASCII
  letters; characters outside ASCII are left unchanged.
\<close>

definition lower_char :: "char \<Rightarrow> char" where
  "lower_char c =
     (let n = (of_char c :: nat) in if 65 \<le> n \<and> n \<le> 90 then char_of (n + 32) else c)"

definition lower :: "string \<Rightarrow> string" where
  "lower s = map lower_char s"

fun startswith :: "string \<Rightarrow> string \<Rightarrow> bool" where
  "startswith s [] = True"
| "startswith [] (k # ks) = False"
| "startswith (c # cs) (k # ks) = (c = k \<and> startswith cs ks)"

text \<open>\<open>contains k s\<close> is Python's \<open>k in s\<close> on strings: \<open>k\<close> occurs as a contiguous block.\<close>

fun contains :: "string \<Rightarrow> string \<Rightarrow> bool" where
  "contains k [] = (k = [])"
| "contains k (c # cs) = (startswith (c # cs) k \<or> contains k cs)"

text \<open>\<open>any(keyword in s for keyword in keywords)\<close>\<close>

definition any_in :: "string list \<Rightarrow> string \<Rightarrow> bool" where
  "any_in keywords s = list_ex (\<lambda>keyword. contains keyword s) keywords"

text \<open>\<open>s.replace(old, new)\<close> for a non-empty \<open>old\<close>, replacing left to right.\<close>

fun replace :: "string \<Rightarrow> string \<Rightarrow> string \<Rightarrow> string" where
  "replace old new [] = []"
| "replace old new (c # cs) =
     (if old \<noteq> [] \<and> startswith (c # cs) old
      then new @ replace old new (drop (length old - 1) cs)
      else c # replace old new cs)"

text \<open>\<open>sep.join(xs)\<close>\<close>

fun join :: "string \<Rightarrow> string list \<Rightarrow> string" where
  "join sep [] = []"
| "join sep [x] = x"
| "join sep (x # y # ys) = x @ sep @ join sep (y # ys)"

section \<open>Calendar events and importance (conflict\_resolver.py)\<close>

text \<open>
  A calendar event as \<open>retrive_calendar_events\<close> builds it: all five keys are present.
\<close>

record event =
  StartTime :: string
  EndTime :: string
  NumAttendees :: nat
  Attendees :: "string list"
  Summary :: string

text \<open>The importance levels are the strings \<open>'high'\<close>, \<open>'medium'\<close>, \<open>'low'\<close> of the source.\<close>

datatype importance = High | Medium | Low

definition importance_keywords :: "(importance \<times> string list) list" where
  "importance_keywords =
     [(High, [''client'', ''customer'', ''urgent'', ''critical'', ''ceo'', ''board'', ''emergency'']),
      (Medium, [''team'', ''project'', ''review'', ''planning'', ''discussion'']),
      (Low, [''lunch'', ''coffee'', ''break'', ''personal'', ''training''])]"

text \<open>
  The inner loop over the keywords of one level: the first keyword found in the summary
  sets \<open>importance\<close> to the level and leaves the loop.
\<close>

fun scan_keywords :: "importance \<Rightarrow> string list \<Rightarrow> string \<Rightarrow> importance \<Rightarrow> importance" where
  "scan_keywords level [] summary imp = imp"
| "scan_keywords level (keyword # keywords) summary imp =
     (if contains keyword summary then level else scan_keywords level keywords summary imp)"

text \<open>
  The outer loop over the levels, in dictionary order; it is left as soon as the importance
  differs from \<open>'medium'\<close>.
\<close>

fun scan_levels :: "(importance \<times> string list) list \<Rightarrow> string \<Rightarrow> importance \<Rightarrow> importance" where
  "scan_levels [] summary imp = imp"
| "scan_levels ((level, keywords) # rest) summary imp =
     (let imp' = scan_keywords level keywords summary imp
      in if imp' \<noteq> Medium then imp' else scan_levels rest summary imp')"

definition classify :: "string \<Rightarrow> importance" where
  "classify subject = scan_levels importance_keywords (lower subject) Medium"

record rated_event =
  rated_event :: event
  rated_importance :: importance
  rated_summary :: string

definition analyze_meeting_importance :: "event list \<Rightarrow> rated_event list" where
  "analyze_meeting_importance events =
     map (\<lambda>ev. \<lparr>rated_event = ev, rated_importance = classify (Summary ev),
                rated_summary = Summary ev\<rparr>) events"

text \<open>
  The calendars of a request: a Python dict from participant to event list, kept as an
  association list in insertion order.
\<close>

type_synonym calendars = "(string \<times> event list) list"

record conflict_analysis =
  all_free :: bool
  some_busy :: bool
  all_busy :: bool
  available_participants :: "string list"
  busy_participants :: "string list"
  conflict_details :: "(string \<times> rated_event list) list"

text \<open>The loop of \<open>_analyze_conflicts\<close> over the items of the dict, with its three accumulators.\<close>

fun analyze_loop :: "calendars \<Rightarrow> string list \<times> string list \<times> (string \<times> rated_event list) list
    \<Rightarrow> string list \<times> string list \<times> (string \<times> rated_event list) list" where
  "analyze_loop [] acc = acc"
| "analyze_loop ((participant, events) # rest) (available, busy, details) =
     (if events = []
      then analyze_loop rest (available @ [participant], busy, details)
      else analyze_loop rest
             (available, busy @ [participant],
              details @ [(participant, analyze_meeting_importance events)]))"

definition analyze_conflicts :: "calendars \<Rightarrow> conflict_analysis" where
  "analyze_conflicts all_participants_events =
     (case analyze_loop all_participants_events ([], [], []) of
        (available, busy, details) \<Rightarrow>
          \<lparr>all_free = (length busy = 0),
           some_busy = (0 < length busy \<and> length busy < length all_participants_events),
           all_busy = (length busy = length all_participants_events),
           available_participants = available,
           busy_participants = busy,
           conflict_details = details\<rparr>)"

section \<open>Dates and times\<close>

text \<open>
  A Python \<open>datetime\<close>, at the resolution of one second: \<open>wall\<close> counts the seconds of its
  own wall clock since 0001-01-01T00:00:00 (a Monday), and \<open>utcoffset\<close> is the offset of an
  aware value in seconds, or \<open>None\<close> for a naive one. Microseconds never reach an output
  of the program (every value is printed with whole seconds) and are left out. The library
  keeps every datetime between 0001-01-01T00:00:00 and 9999-12-31T23:59:59, that is \<open>wall\<close>
  between 0 and \<open>max_wall\<close>.
\<close>

record datetime =
  wall :: int
  utcoffset :: "int option"

definition weekday :: "datetime \<Rightarrow> int" where
  "weekday t = (wall t div 86400) mod 7"

definition hour :: "datetime \<Rightarrow> int" where
  "hour t = (wall t mod 86400) div 3600"

definition minute :: "datetime \<Rightarrow> int" where
  "minute t = (wall t mod 3600) div 60"

definition second :: "datetime \<Rightarrow> int" where
  "second t = wall t mod 60"

text \<open>
  \<open>t.replace(hour=h, minute=m, second=s)\<close>: a field given as \<open>None\<close> keeps its value, as a
  keyword left out does.
\<close>

definition dt_replace :: "int option \<Rightarrow> int option \<Rightarrow> int option \<Rightarrow> datetime \<Rightarrow> datetime" where
  "dt_replace h m s t =
     t\<lparr>wall := (wall t div 86400) * 86400
                + (case h of None \<Rightarrow> hour t | Some h' \<Rightarrow> h') * 3600
                + (case m of None \<Rightarrow> minute t | Some m' \<Rightarrow> m') * 60
                + (case s of None \<Rightarrow> second t | Some s' \<Rightarrow> s')\<rparr>"

text \<open>A \<open>timedelta\<close> is a number of seconds.\<close>

definition days :: "int \<Rightarrow> int" where
  "days n = 86400 * n"

definition hours :: "int \<Rightarrow> int" where
  "hours n = 3600 * n"

text \<open>
  \<open>dt_add\<close> adds a \<open>timedelta\<close> to a reading of the wall clock, see below.
\<close>

definition dt_add :: "datetime \<Rightarrow> int \<Rightarrow> datetime" where
  "dt_add t delta = t\<lparr>wall := wall t + delta\<rparr>"

text \<open>
  The timestamps and durations of the input can be anything, and an addition on them can
  leave the range of the library. \<open>timedelta(minutes=n)\<close> raises \<open>OverflowError\<close> when it would
  span more than 999999999 days either way, and \<open>t + delta\<close> raises it when the sum is not
  a datetime of the years 1 to 9999; \<open>None\<close> is that exception. The sum is taken on the
  wall clock of \<open>t\<close>, also for an aware \<open>t\<close>.
\<close>

definition max_wall :: int where
  "max_wall = 315537897599"

definition timedelta_minutes :: "int \<Rightarrow> int option" where
  "timedelta_minutes n =
     (if - 999999999 \<le> n div 1440 \<and> n div 1440 \<le> 999999999 then Some (60 * n) else None)"

definition dt_plus :: "datetime \<Rightarrow> int \<Rightarrow> datetime option" where
  "dt_plus t delta =
     (if 0 \<le> wall t + delta \<and> wall t + delta \<le> max_wall
      then Some (t\<lparr>wall := wall t + delta\<rparr>) else None)"

text \<open>\<open>t + timedelta(minutes=n)\<close>\<close>

definition plus_minutes :: "datetime \<Rightarrow> int \<Rightarrow> datetime option" where
  "plus_minutes t n =
     (case timedelta_minutes n of None \<Rightarrow> None | Some delta \<Rightarrow> dt_plus t delta)"

text \<open>
  Comparison and difference of two datetimes: \<open>None\<close> is the \<open>TypeError\<close> that Python raises
  when one is naive and the other aware; two aware values are compared as instants.
\<close>

definition dt_less :: "datetime \<Rightarrow> datetime \<Rightarrow> bool option" where
  "dt_less a b =
     (case (utcoffset a, utcoffset b) of
        (None, None) \<Rightarrow> Some (wall a < wall b)
      | (Some oa, Some ob) \<Rightarrow> Some (wall a - oa < wall b - ob)
      | _ \<Rightarrow> None)"

definition dt_less_eq :: "datetime \<Rightarrow> datetime \<Rightarrow> bool option" where
  "dt_less_eq a b =
     (case (utcoffset a, utcoffset b) of
        (None, None) \<Rightarrow> Some (wall a \<le> wall b)
      | (Some oa, Some ob) \<Rightarrow> Some (wall a - oa \<le> wall b - ob)
      | _ \<Rightarrow> None)"

definition dt_diff :: "datetime \<Rightarrow> datetime \<Rightarrow> int option" where
  "dt_diff a b =
     (case (utcoffset a, utcoffset b) of
        (None, None) \<Rightarrow> Some (wall a - wall b)
      | (Some oa, Some ob) \<Rightarrow> Some ((wall a - oa) - (wall b - ob))
      | _ \<Rightarrow> None)"

subsection \<open>The calendar of the library\<close>

text \<open>
  The proleptic Gregorian calendar as the library's \<open>_ord2ymd\<close> and \<open>_ymd2ord\<close> compute it,
  on day numbers that start at 0 for 0001-01-01.
\<close>

definition is_leap :: "int \<Rightarrow> bool" where
  "is_leap y = (y mod 4 = 0 \<and> (y mod 100 \<noteq> 0 \<or> y mod 400 = 0))"

definition days_in_month :: "int \<Rightarrow> int \<Rightarrow> int" where
  "days_in_month y m =
     (if m = 2 then (if is_leap y then 29 else 28)
      else if m = 4 \<or> m = 6 \<or> m = 9 \<or> m = 11 then 30 else 31)"

definition days_before_year :: "int \<Rightarrow> int" where
  "days_before_year y = (y - 1) * 365 + (y - 1) div 4 - (y - 1) div 100 + (y - 1) div 400"

fun days_before_month_aux :: "int \<Rightarrow> nat \<Rightarrow> int" where
  "days_before_month_aux y 0 = 0"
| "days_before_month_aux y (Suc k) = days_before_month_aux y k + days_in_month y (int (Suc k))"

definition days_before_month :: "int \<Rightarrow> int \<Rightarrow> int" where
  "days_before_month y m = days_before_month_aux y (nat (m - 1))"

definition ymd2ord :: "int \<Rightarrow> int \<Rightarrow> int \<Rightarrow> int" where
  "ymd2ord y m d = days_before_year y + days_before_month y m + d - 1"

definition ord2ymd :: "int \<Rightarrow> int \<times> int \<times> int" where
  "ord2ymd n0 =
     (let n400 = n0 div 146097; n1 = n0 mod 146097;
          n100 = n1 div 36524; n2 = n1 mod 36524;
          n4 = n2 div 1461; n3 = n2 mod 1461;
          n1y = n3 div 365; n = n3 mod 365;
          year = n400 * 400 + 1 + n100 * 100 + n4 * 4 + n1y
      in if n1y = 4 \<or> n100 = 4 then (year - 1, 12, 31)
         else
           (let leapyear = (n1y = 3 \<and> (n4 \<noteq> 24 \<or> n100 = 3));
                month = (n + 50) div 32;
                preceding = days_before_month 1 month + (if month > 2 \<and> leapyear then 1 else 0)
            in if preceding > n
               then (let month' = month - 1;
                         preceding' = preceding - (days_in_month 1 month'
                                        + (if month' = 2 \<and> leapyear then 1 else 0))
                     in (year, month', n - preceding' + 1))
               else (year, month, n - preceding + 1)))"

subsection \<open>Printing\<close>

definition digit_char :: "int \<Rightarrow> char" where
  "digit_char d = char_of (48 + nat d)"

definition pad2 :: "int \<Rightarrow> string" where
  "pad2 n = [digit_char (n div 10 mod 10), digit_char (n mod 10)]"

definition pad4 :: "int \<Rightarrow> string" where
  "pad4 n = [digit_char (n div 1000 mod 10), digit_char (n div 100 mod 10),
             digit_char (n div 10 mod 10), digit_char (n mod 10)]"

text \<open>The fields of a datetime printed as \<open>YYYY-MM-DDTHH:MM:SS\<close>.\<close>

definition print_fields :: "datetime \<Rightarrow> string" where
  "print_fields t =
     (case ord2ymd (wall t div 86400) of
        (y, m, d) \<Rightarrow>
          pad4 y @ ''-'' @ pad2 m @ ''-'' @ pad2 d @ ''T''
          @ pad2 (hour t) @ '':'' @ pad2 (minute t) @ '':'' @ pad2 (second t))"

text \<open>\<open>t.strftime('%Y-%m-%dT%H:%M:%S+05:30')\<close>: the offset is a literal part of the format.\<close>

definition strftime :: "datetime \<Rightarrow> string" where
  "strftime t = print_fields t @ ''+05:30''"

definition print_offset :: "int \<Rightarrow> string" where
  "print_offset off =
     (if off < 0 then ''-'' else ''+'') @ pad2 (\<bar>off\<bar> div 3600) @ '':'' @ pad2 (\<bar>off\<bar> mod 3600 div 60)"

text \<open>\<open>t.isoformat()\<close>, for offsets of whole minutes.\<close>

definition isoformat :: "datetime \<Rightarrow> string" where
  "isoformat t =
     print_fields t @ (case utcoffset t of None \<Rightarrow> [] | Some off \<Rightarrow> print_offset off)"

subsection \<open>Parsing\<close>

definition digit_val :: "char \<Rightarrow> int option" where
  "digit_val c =
     (let n = (of_char c :: nat) in if 48 \<le> n \<and> n \<le> 57 then Some (int n - 48) else None)"

fun parse_num :: "string \<Rightarrow> int \<Rightarrow> int option" where
  "parse_num [] acc = Some acc"
| "parse_num (c # cs) acc =
     (case digit_val c of None \<Rightarrow> None | Some d \<Rightarrow> parse_num cs (10 * acc + d))"

definition field :: "string \<Rightarrow> nat \<Rightarrow> nat \<Rightarrow> int option" where
  "field s i n = (if i + n \<le> length s then parse_num (take n (drop i s)) 0 else None)"

definition parse_offset :: "string \<Rightarrow> int option option" where
  "parse_offset s =
     (if s = [] then Some None
      else if length s = 6 \<and> (s ! 0 = CHR ''+'' \<or> s ! 0 = CHR ''-'') \<and> s ! 3 = CHR '':''
      then (case (field s 1 2, field s 4 2) of
              (Some h, Some m) \<Rightarrow>
                if h < 24 \<and> m < 60
                then Some (Some ((if s ! 0 = CHR ''-'' then - 1 else 1) * (h * 3600 + m * 60)))
                else None
            | _ \<Rightarrow> None)
      else None)"

text \<open>
  A model of the library's \<open>datetime.fromisoformat\<close> on the one shape of timestamp that the
  program and the calendar service write, \<open>YYYY-MM-DDTHH:MM:SS\<close> with an optional
  \<open>+HH:MM\<close> or \<open>-HH:MM\<close>; \<open>None\<close> is the \<open>ValueError\<close>. The functions below that parse take
  the parser as an argument, so what is proved of them holds for the library's own parser;
  this model stands in for it when a function is run on a concrete input.
\<close>

definition fromisoformat :: "string \<Rightarrow> datetime option" where
  "fromisoformat s =
     (if length s < 19 \<or> s ! 4 \<noteq> CHR ''-'' \<or> s ! 7 \<noteq> CHR ''-'' \<or> s ! 10 \<noteq> CHR ''T''
         \<or> s ! 13 \<noteq> CHR '':'' \<or> s ! 16 \<noteq> CHR '':'' then None
      else
        (case (field s 0 4, field s 5 2, field s 8 2, field s 11 2, field s 14 2, field s 17 2,
               parse_offset (drop 19 s)) of
           (Some y, Some m, Some d, Some hh, Some mm, Some ss, Some off) \<Rightarrow>
             if 1 \<le> y \<and> 1 \<le> m \<and> m \<le> 12 \<and> 1 \<le> d \<and> d \<le> days_in_month y m
                \<and> hh < 24 \<and> mm < 60 \<and> ss < 60
             then Some \<lparr>wall = ymd2ord y m d * 86400 + hh * 3600 + mm * 60 + ss, utcoffset = off\<rparr>
             else None
         | _ \<Rightarrow> None))"

subsection \<open>The wall clock\<close>

text \<open>
  \<open>datetime.now()\<close> reads the wall clock. The clock is the sequence of the readings still to
  come, in seconds; a read returns the first one as a naive datetime and leaves the rest.
  A reading is the time of a running system, years away from the ends of the library's
  range: the days and hours that the program adds to a reading stay inside the range, and are
  added with \<open>dt_add\<close>, which has no exception.
\<close>

type_synonym clock = "nat \<Rightarrow> int"

definition datetime_now :: "clock \<Rightarrow> datetime \<times> clock" where
  "datetime_now clk = (\<lparr>wall = clk 0, utcoffset = None\<rparr>, \<lambda>n. clk (Suc n))"

section \<open>Time resolution (calendar\_utils.py, conflict\_resolver.py)\<close>

definition is_weekend :: "datetime \<Rightarrow> bool" where
  "is_weekend date_obj = (weekday date_obj \<ge> 5)"

definition check_weekend_constraint :: "string \<Rightarrow> bool" where
  "check_weekend_constraint time_constraint =
     any_in [''saturday'', ''sunday'', ''weekend'', ''sat'', ''sun''] (lower time_constraint)"

text \<open>
  The five functions \<open>_get_next_monday\<close> ... \<open>_get_next_friday\<close> and the five weekday
  branches of \<open>get_date_range_from_constraint\<close> differ only in the index of the weekday.
\<close>

definition days_ahead :: "int \<Rightarrow> datetime \<Rightarrow> int" where
  "days_ahead target today =
     (let d = target - weekday today in if d \<le> 0 then d + 7 else d)"

definition get_next :: "int \<Rightarrow> clock \<Rightarrow> datetime \<times> clock" where
  "get_next target clk =
     (case datetime_now clk of
        (today, clk') \<Rightarrow> (dt_add today (days (days_ahead target today)), clk'))"

definition get_next_monday :: "clock \<Rightarrow> datetime \<times> clock" where
  "get_next_monday = get_next 0"

definition get_next_tuesday :: "clock \<Rightarrow> datetime \<times> clock" where
  "get_next_tuesday = get_next 1"

definition get_next_wednesday :: "clock \<Rightarrow> datetime \<times> clock" where
  "get_next_wednesday = get_next 2"

definition get_next_thursday :: "clock \<Rightarrow> datetime \<times> clock" where
  "get_next_thursday = get_next 3"

definition get_next_friday :: "clock \<Rightarrow> datetime \<times> clock" where
  "get_next_friday = get_next 4"

text \<open>The full day of \<open>t\<close>: from 00:00:00 to 23:59:59.\<close>

definition whole_day :: "datetime \<Rightarrow> datetime \<times> datetime" where
  "whole_day t =
     (dt_replace (Some 0) (Some 0) (Some 0) t, dt_replace (Some 23) (Some 59) (Some 59) t)"

text \<open>
  \<open>get_date_range_from_constraint\<close> reads the clock once, at its start; \<open>date_range_at\<close>
  is the rest of its body, for the reading \<open>now\<close>. \<open>None\<close> is the pair \<open>(None, None)\<close>.
\<close>

definition date_range_at :: "string \<Rightarrow> int \<Rightarrow> datetime \<Rightarrow> (string \<times> string) option" where
  "date_range_at time_constraint duration_mins now =
     (let start_time = dt_replace (Some 0) (Some 0) (Some 0) now;
          end_time = dt_add start_time (days 7);
          constraint_lower = lower time_constraint;
          iso = (\<lambda>(a, b). Some (strftime a, strftime b));
          next_day = (\<lambda>target. iso (whole_day (dt_add now (days (days_ahead target now)))))
      in
        if check_weekend_constraint time_constraint then None
        else if contains ''tomorrow'' constraint_lower then
          (let tomorrow = dt_add now (days 1)
           in if is_weekend tomorrow then None else iso (whole_day tomorrow))
        else if contains ''next week'' constraint_lower then
          (let next_week = dt_add now (days 7);
               start_time = dt_replace (Some 0) (Some 0) (Some 0) next_week
           in iso (start_time, dt_add start_time (days 7)))
        else if contains ''saturday'' constraint_lower \<or> contains ''sunday'' constraint_lower
          then None
        else if contains ''thursday'' constraint_lower then next_day 3
        else if contains ''monday'' constraint_lower then next_day 0
        else if contains ''tuesday'' constraint_lower then next_day 1
        else if contains ''wednesday'' constraint_lower then next_day 2
        else if contains ''friday'' constraint_lower then next_day 4
        else iso (start_time, end_time))"

definition get_date_range_from_constraint ::
    "string \<Rightarrow> int \<Rightarrow> clock \<Rightarrow> (string \<times> string) option \<times> clock" where
  "get_date_range_from_constraint time_constraint duration_mins clk =
     (case datetime_now clk of
        (now, clk') \<Rightarrow> (date_range_at time_constraint duration_mins now, clk'))"

text \<open>
  The loop of \<open>_find_optimal_time\<close> that moves a slot into business hours: one round of its
  body, and the loop itself.
\<close>

definition outside_hours :: "datetime \<Rightarrow> bool" where
  "outside_hours next_slot = (is_weekend next_slot \<or> hour next_slot < 9 \<or> hour next_slot > 17)"

definition days_to_monday :: "datetime \<Rightarrow> int" where
  "days_to_monday t = (let d = (7 - weekday t) mod 7 in if d = 0 then 7 else d)"

definition advance_slot :: "datetime \<Rightarrow> datetime" where
  "advance_slot next_slot =
     (if is_weekend next_slot
      then dt_replace (Some 9) None None (dt_add next_slot (days (days_to_monday next_slot)))
      else if hour next_slot < 9 then dt_replace (Some 9) None None next_slot
      else if hour next_slot > 17 then dt_replace (Some 9) None None (dt_add next_slot (days 1))
      else next_slot)"

definition rounds_left :: "datetime \<Rightarrow> nat" where
  "rounds_left t =
     (if \<not> outside_hours t then 0 else if is_weekend t \<or> hour t < 9 then 1 else 2)"

function business_slot :: "datetime \<Rightarrow> datetime" where
  "business_slot next_slot =
     (if outside_hours next_slot then business_slot (advance_slot next_slot) else next_slot)"
  by pat_completeness auto
termination
proof (relation "measure rounds_left")
  show "wf (measure rounds_left)" by simp
next
  fix t :: datetime
  assume out: "outside_hours t"
  have wd: "0 \<le> weekday t \<and> weekday t < 7" by (simp add: weekday_def)
  have div_qr: "\<And>q r b :: int. 0 \<le> r \<Longrightarrow> r < b \<Longrightarrow> (q * b + r) div b = q"
    by (simp add: div_pos_pos_trivial)
  have mod_qr: "\<And>q r b :: int. 0 \<le> r \<Longrightarrow> r < b \<Longrightarrow> (q * b + r) mod b = r"
    by (simp add: mod_pos_pos_trivial)
  have at_nine: "\<And>u. \<exists>r. wall (dt_replace (Some 9) None None u) = wall u div 86400 * 86400 + r
                      \<and> 32400 \<le> r \<and> r < 36000"
  proof -
    fix u :: datetime
    have m: "0 \<le> minute u \<and> minute u < 60"
      by (simp add: minute_def pos_imp_zdiv_nonneg_iff)
    have s: "0 \<le> second u \<and> second u < 60" by (simp add: second_def)
    have "wall (dt_replace (Some 9) None None u)
            = wall u div 86400 * 86400 + (32400 + minute u * 60 + second u)"
      by (simp add: dt_replace_def)
    moreover have "32400 \<le> 32400 + minute u * 60 + second u
                   \<and> 32400 + minute u * 60 + second u < 36000"
      using m s by auto
    ultimately show "\<exists>r. wall (dt_replace (Some 9) None None u) = wall u div 86400 * 86400 + r
                      \<and> 32400 \<le> r \<and> r < 36000"
      by blast
  qed
  have hr_nine: "\<And>u. hour (dt_replace (Some 9) None None u) = 9"
  proof -
    fix u :: datetime
    obtain r where r: "wall (dt_replace (Some 9) None None u) = wall u div 86400 * 86400 + r"
        "32400 \<le> r" "r < 36000"
      using at_nine by blast
    have "(wall u div 86400 * 86400 + r) mod 86400 = r"
      using r by (intro mod_qr) auto
    moreover have "r div 3600 = 9"
      using r div_qr[of "r - 32400" 3600 9] by simp
    ultimately show "hour (dt_replace (Some 9) None None u) = 9"
      using r by (simp add: hour_def)
  qed
  have wd_keep: "\<And>u. weekday (dt_replace (Some 9) None None u) = weekday u"
  proof -
    fix u :: datetime
    obtain r where r: "wall (dt_replace (Some 9) None None u) = wall u div 86400 * 86400 + r"
        "32400 \<le> r" "r < 36000"
      using at_nine by blast
    have "(wall u div 86400 * 86400 + r) div 86400 = wall u div 86400"
      using r by (intro div_qr) auto
    then show "weekday (dt_replace (Some 9) None None u) = weekday u"
      using r by (simp add: weekday_def)
  qed
  have wd_add: "\<And>u n. weekday (dt_add u (days n)) = (weekday u + n) mod 7"
    by (simp add: weekday_def dt_add_def days_def mod_add_left_eq mod_add_right_eq add.commute)
  show "(advance_slot t, t) \<in> measure rounds_left"
  proof (cases "is_weekend t")
    case True
    have "weekday t = 5 \<or> weekday t = 6"
      using True wd by (auto simp: is_weekend_def)
    then have "(weekday t + days_to_monday t) mod 7 = 0"
      by (auto simp: days_to_monday_def)
    then have "weekday (advance_slot t) = 0"
      using True by (simp add: advance_slot_def wd_keep wd_add)
    moreover have "hour (advance_slot t) = 9"
      using True by (simp add: advance_slot_def hr_nine)
    ultimately have "\<not> outside_hours (advance_slot t)"
      by (simp add: outside_hours_def is_weekend_def)
    then show ?thesis using True out by (simp add: rounds_left_def)
  next
    case False
    show ?thesis
    proof (cases "hour t < 9")
      case True
      have "hour (advance_slot t) = 9" "weekday (advance_slot t) = weekday t"
        using True False by (simp_all add: advance_slot_def hr_nine wd_keep)
      then have "\<not> outside_hours (advance_slot t)"
        using False by (simp add: outside_hours_def is_weekend_def)
      then show ?thesis using True out by (simp add: rounds_left_def)
    next
      case late: False
      then have "hour t > 17" using out False by (simp add: outside_hours_def)
      then have "hour (advance_slot t) = 9"
        using late False by (simp add: advance_slot_def hr_nine)
      then have "rounds_left (advance_slot t) \<le> 1"
        by (simp add: rounds_left_def outside_hours_def)
      moreover have "rounds_left t = 2"
        using out late False by (simp add: rounds_left_def)
      ultimately show ?thesis by simp
    qed
  qed
qed

text \<open>
  \<open>_get_tomorrow_time\<close> prints \<open>tomorrow_slot now\<close>, and \<open>_find_alternative_time\<close> prints
  \<open>alternative_slot now\<close>, for the reading \<open>now\<close> of the clock.
\<close>

definition tomorrow_slot :: "datetime \<Rightarrow> datetime" where
  "tomorrow_slot now =
     (let tomorrow = dt_add now (days 1);
          tomorrow = (if is_weekend tomorrow
                      then dt_add tomorrow (days (days_to_monday tomorrow)) else tomorrow)
      in dt_replace (Some 10) (Some 0) (Some 0) tomorrow)"

definition get_tomorrow_time :: "int \<Rightarrow> clock \<Rightarrow> string \<times> clock" where
  "get_tomorrow_time duration clk =
     (case datetime_now clk of (now, clk') \<Rightarrow> (strftime (tomorrow_slot now), clk'))"

definition alternative_slot :: "datetime \<Rightarrow> datetime" where
  "alternative_slot now = dt_replace None (Some 0) (Some 0) (dt_add now (hours 2))"

definition find_alternative_time :: "int \<Rightarrow> clock \<Rightarrow> string \<times> clock" where
  "find_alternative_time duration clk =
     (case datetime_now clk of (now, clk') \<Rightarrow> (strftime (alternative_slot now), clk'))"

section \<open>The decision engine (conflict\_resolver.py)\<close>

datatype error = ValueError string | KeyError string | IndexError string

text \<open>\<open>str(e)\<close>\<close>

fun str_error :: "error \<Rightarrow> string" where
  "str_error (ValueError msg) = msg"
| "str_error (KeyError k) = [CHR 0x27] @ k @ [CHR 0x27]"
| "str_error (IndexError msg) = msg"

text \<open>The parsed request; \<open>start_time\<close>, which nothing reads, is left out.\<close>

record parsed_request =
  participants :: "string list"
  pr_meeting_duration :: int
  time_constraints :: string
  subject :: string
  pr_From :: string

record follow_up =
  fu_participants :: "string list"
  fu_time :: string
  fu_reason :: string

text \<open>The resolution dict; a key that a branch does not set is \<open>None\<close>.\<close>

record resolution =
  action :: string
  recommended_time :: string
  participants_to_include :: "string list"
  reason :: string
  meeting_duration :: int
  follow_up_needed :: "string list option"
  follow_up_meetings :: "follow_up list option"
  reschedule_needed :: "string option"

definition at_time :: "int \<Rightarrow> int \<Rightarrow> datetime \<Rightarrow> string" where
  "at_time h m base_date = strftime (dt_replace (Some h) (Some m) None base_date)"

definition find_optimal_time :: "parsed_request \<Rightarrow> int \<Rightarrow> clock \<Rightarrow> string \<times> clock" where
  "find_optimal_time parsed_request duration clk =
     (let constraint = time_constraints parsed_request in
      if contains ''thursday'' (lower constraint) then
        (case get_next_thursday clk of
           (base_date, clk1) \<Rightarrow>
             (case (if is_weekend base_date then get_next_monday clk1 else (base_date, clk1)) of
                (base_date, clk2) \<Rightarrow> (at_time 10 30 base_date, clk2)))
      else if contains ''monday'' (lower constraint) then
        (case get_next_monday clk of
           (base_date, clk1) \<Rightarrow>
             (if contains ''9:00'' constraint then at_time 9 0 base_date
              else at_time 10 0 base_date, clk1))
      else if contains ''tuesday'' (lower constraint) then
        (case get_next_tuesday clk of
           (base_date, clk1) \<Rightarrow>
             (if contains ''11:00'' constraint then at_time 11 0 base_date
              else at_time 10 0 base_date, clk1))
      else if contains ''wednesday'' (lower constraint) then
        (case get_next_wednesday clk of
           (base_date, clk1) \<Rightarrow>
             (if contains ''10:00'' constraint then at_time 10 0 base_date
              else at_time 10 0 base_date, clk1))
      else if contains ''friday'' (lower constraint) then
        (case get_next_friday clk of (base_date, clk1) \<Rightarrow> (at_time 10 0 base_date, clk1))
      else
        (case datetime_now clk of
           (now, clk1) \<Rightarrow>
             (let next_slot = dt_replace None (Some 0) (Some 0) (dt_add now (hours 1))
              in (strftime (business_slot next_slot), clk1))))"

definition schedule_all_participants :: "parsed_request \<Rightarrow> int \<Rightarrow> clock \<Rightarrow> resolution \<times> clock" where
  "schedule_all_participants parsed_request duration clk =
     (case find_optimal_time parsed_request duration clk of
        (optimal_time, clk') \<Rightarrow>
          (\<lparr>action = ''schedule_all'',
            recommended_time = optimal_time,
            participants_to_include = participants parsed_request,
            reason = ''All participants are available at the requested time'',
            meeting_duration = duration,
            follow_up_needed = None, follow_up_meetings = None, reschedule_needed = None\<rparr>,
           clk'))"

definition handle_all_busy :: "parsed_request \<Rightarrow> int \<Rightarrow> clock \<Rightarrow> resolution \<times> clock" where
  "handle_all_busy parsed_request duration clk =
     (case get_tomorrow_time duration clk of
        (tomorrow_time, clk') \<Rightarrow>
          (\<lparr>action = ''reschedule_tomorrow'',
            recommended_time = tomorrow_time,
            participants_to_include = participants parsed_request,
            reason = ''All participants are busy with important meetings. Rescheduling to tomorrow.'',
            meeting_duration = duration,
            follow_up_needed = None, follow_up_meetings = None, reschedule_needed = None\<rparr>,
           clk'))"

definition reschedule_for_all :: "parsed_request \<Rightarrow> int \<Rightarrow> clock \<Rightarrow> resolution \<times> clock" where
  "reschedule_for_all parsed_request duration clk =
     (case get_tomorrow_time duration clk of
        (tomorrow_time, clk') \<Rightarrow>
          (\<lparr>action = ''reschedule_tomorrow'',
            recommended_time = tomorrow_time,
            participants_to_include = participants parsed_request,
            reason = ''All participants are required but some are busy. Rescheduling to tomorrow.'',
            meeting_duration = duration,
            follow_up_needed = None, follow_up_meetings = None, reschedule_needed = None\<rparr>,
           clk'))"

definition schedule_with_reschedule ::
    "parsed_request \<Rightarrow> string \<Rightarrow> int \<Rightarrow> clock \<Rightarrow> resolution \<times> clock" where
  "schedule_with_reschedule parsed_request busy_person duration clk =
     (case find_optimal_time parsed_request duration clk of
        (optimal_time, clk') \<Rightarrow>
          (\<lparr>action = ''schedule_all_with_reschedule'',
            recommended_time = optimal_time,
            participants_to_include = participants parsed_request,
            reason = ''Rescheduling '' @ busy_person
                     @ [CHR 0x27] @ ''s low-priority meeting to accommodate this important meeting.'',
            meeting_duration = duration,
            follow_up_needed = None, follow_up_meetings = None,
            reschedule_needed = Some busy_person\<rparr>,
           clk'))"

text \<open>
  In \<open>_schedule_partial_meeting\<close> the default \<open>parsed_request['participants'][0]\<close> of the
  lookup of \<open>'From'\<close> is evaluated before the lookup, and raises on an empty list.
\<close>

definition schedule_partial_meeting ::
    "parsed_request \<Rightarrow> string list \<Rightarrow> string list \<Rightarrow> int \<Rightarrow> clock
      \<Rightarrow> (error + resolution) \<times> clock" where
  "schedule_partial_meeting parsed_request available busy duration clk =
     (case find_optimal_time parsed_request duration clk of
        (optimal_time, clk1) \<Rightarrow>
          (let subj = lower (subject parsed_request) in
           if contains ''feedback'' subj \<and> length available \<ge> 1 then
             (Inr \<lparr>action = ''schedule_partial'',
                   recommended_time = optimal_time,
                   participants_to_include = available,
                   reason = ''Meeting can proceed with '' @ join '', '' available
                            @ ''. Will update '' @ join '', '' busy @ '' separately.'',
                   meeting_duration = duration,
                   follow_up_needed = Some busy, follow_up_meetings = None,
                   reschedule_needed = None\<rparr>,
              clk1)
           else if participants parsed_request = [] then
             (Inl (IndexError ''list index out of range''), clk1)
           else
             (let organizer = pr_From parsed_request in
              case find_alternative_time duration clk1 of
                (alternative, clk2) \<Rightarrow>
                  (Inr \<lparr>action = ''schedule_organizer_first'',
                        recommended_time = optimal_time,
                        participants_to_include = organizer # available,
                        reason = ''Scheduling with organizer and available participants first. ''
                                 @ ''Will arrange separate time with '' @ join '', '' busy @ ''.'',
                        meeting_duration = duration,
                        follow_up_needed = None,
                        follow_up_meetings =
                          Some [\<lparr>fu_participants = organizer # busy,
                                 fu_time = alternative,
                                 fu_reason = ''Follow-up meeting with previously busy participants''\<rparr>],
                        reschedule_needed = None\<rparr>,
                   clk2))))"

definition critical_keywords :: "string list" where
  "critical_keywords = [''all'', ''team'', ''everyone'', ''together'']"

definition has_low_priority_conflict :: "rated_event list \<Rightarrow> bool" where
  "has_low_priority_conflict busy_events = list_ex (\<lambda>ev. rated_importance ev = Low) busy_events"

definition handle_partial_conflicts ::
    "parsed_request \<Rightarrow> calendars \<Rightarrow> conflict_analysis \<Rightarrow> int \<Rightarrow> clock
      \<Rightarrow> (error + resolution) \<times> clock" where
  "handle_partial_conflicts parsed_request all_participants_events analysis duration clk =
     (let subj = lower (subject parsed_request);
          requires_all = any_in critical_keywords subj
      in if requires_all then
           (case reschedule_for_all parsed_request duration clk of
              (r, clk') \<Rightarrow> (Inr r, clk'))
         else
           (case busy_participants analysis of
              [] \<Rightarrow> (Inl (IndexError ''list index out of range''), clk)
            | busy_person # _ \<Rightarrow>
                (case map_of (conflict_details analysis) busy_person of
                   None \<Rightarrow> (Inl (KeyError busy_person), clk)
                 | Some busy_events \<Rightarrow>
                     if has_low_priority_conflict busy_events then
                       (case schedule_with_reschedule parsed_request busy_person duration clk of
                          (r, clk') \<Rightarrow> (Inr r, clk'))
                     else
                       schedule_partial_meeting parsed_request
                         (available_participants analysis) (busy_participants analysis)
                         duration clk)))"

definition resolve_scheduling_conflicts ::
    "parsed_request \<Rightarrow> calendars \<Rightarrow> int \<Rightarrow> clock \<Rightarrow> (error + resolution) \<times> clock" where
  "resolve_scheduling_conflicts parsed_request all_participants_events duration clk =
     (let analysis = analyze_conflicts all_participants_events in
      if all_free analysis then
        (case schedule_all_participants parsed_request duration clk of
           (r, clk') \<Rightarrow> (Inr r, clk'))
      else if some_busy analysis then
        handle_partial_conflicts parsed_request all_participants_events analysis duration clk
      else
        (case handle_all_busy parsed_request duration clk of
           (r, clk') \<Rightarrow> (Inr r, clk')))"

section \<open>Free slots (calendar\_utils.py)\<close>

record slot =
  slot_start :: string
  slot_end :: string

text \<open>
  The parser \<open>parse\<close> stands for \<open>datetime.fromisoformat\<close>; \<open>None\<close> is its \<open>ValueError\<close>.
\<close>

definition parse_z :: "(string \<Rightarrow> datetime option) \<Rightarrow> string \<Rightarrow> datetime option" where
  "parse_z parse s = parse (replace ''Z'' ''+00:00'' s)"

text \<open>
  The dict \<open>{'start': t.isoformat(), 'end': (t + timedelta(minutes=duration_mins)).isoformat()}\<close>;
  \<open>None\<close> when the addition raises.
\<close>

definition slot_at :: "datetime \<Rightarrow> int \<Rightarrow> slot option" where
  "slot_at t duration_mins =
     (case plus_minutes t duration_mins of
        None \<Rightarrow> None
      | Some t_end \<Rightarrow> Some \<lparr>slot_start = isoformat t, slot_end = isoformat t_end\<rparr>)"

text \<open>
  The three parts of the \<open>try\<close> block of \<open>find_free_slots\<close>. Each returns the slots it
  appends; \<open>None\<close> (or the flag \<open>False\<close>) says that an exception (a timestamp that does not
  parse, a naive datetime met with an aware one, an addition out of range) left the block
  there, after which the function returns the slots appended so far.
\<close>

definition slot_before_first ::
    "(string \<Rightarrow> datetime option) \<Rightarrow> event list \<Rightarrow> int \<Rightarrow> datetime \<Rightarrow> slot list option" where
  "slot_before_first parse sorted_events duration_mins work_start =
     (case sorted_events of
        [] \<Rightarrow> map_option (\<lambda>s. [s]) (slot_at work_start duration_mins)
      | ev # _ \<Rightarrow>
          (case parse_z parse (StartTime ev) of
             None \<Rightarrow> None
           | Some first_start \<Rightarrow>
               (case plus_minutes work_start duration_mins of
                  None \<Rightarrow> None
                | Some earliest \<Rightarrow>
                    (case dt_less earliest first_start of
                       None \<Rightarrow> None
                     | Some later \<Rightarrow>
                         if later then map_option (\<lambda>s. [s]) (slot_at work_start duration_mins)
                         else Some []))))"

text \<open>
  The gap between two events is \<open>total_seconds() / 60\<close>, a float, compared with the
  duration in minutes, an integer. A gap is below \<open>2 ^ 39\<close> seconds, so the division is off
  by far less than the sixtieth of a minute that separates two gaps, and Python compares a
  float with an integer exactly: the comparison is that of the seconds with
  \<open>60 * duration_mins\<close>.
\<close>

fun slots_between ::
    "(string \<Rightarrow> datetime option) \<Rightarrow> event list \<Rightarrow> int \<Rightarrow> slot list \<times> bool" where
  "slots_between parse (ev # next_ev # rest) duration_mins =
     (case parse_z parse (EndTime ev) of
        None \<Rightarrow> ([], False)
      | Some event_end \<Rightarrow>
          (case parse_z parse (StartTime next_ev) of
             None \<Rightarrow> ([], False)
           | Some next_event_start \<Rightarrow>
               (case dt_diff next_event_start event_end of
                  None \<Rightarrow> ([], False)
                | Some gap \<Rightarrow>
                    if gap \<ge> 60 * duration_mins then
                      (case slot_at event_end duration_mins of
                         None \<Rightarrow> ([], False)
                       | Some s \<Rightarrow>
                           (case slots_between parse (next_ev # rest) duration_mins of
                              (later_slots, ok) \<Rightarrow> (s # later_slots, ok)))
                    else slots_between parse (next_ev # rest) duration_mins)))"
| "slots_between parse evs duration_mins = ([], True)"

definition slot_after_last ::
    "(string \<Rightarrow> datetime option) \<Rightarrow> event list \<Rightarrow> int \<Rightarrow> datetime \<Rightarrow> slot list option" where
  "slot_after_last parse sorted_events duration_mins work_end =
     (if sorted_events = [] then Some []
      else
        (case parse_z parse (EndTime (last sorted_events)) of
           None \<Rightarrow> None
         | Some last_event_end \<Rightarrow>
             (case plus_minutes last_event_end duration_mins of
                None \<Rightarrow> None
              | Some latest \<Rightarrow>
                  (case dt_less_eq latest work_end of
                     None \<Rightarrow> None
                   | Some fits \<Rightarrow>
                       if fits then map_option (\<lambda>s. [s]) (slot_at last_event_end duration_mins)
                       else Some []))))"

text \<open>The second and third part: the slots at the ends of events.\<close>

definition slots_at_event_ends ::
    "(string \<Rightarrow> datetime option) \<Rightarrow> event list \<Rightarrow> int \<Rightarrow> datetime \<Rightarrow> slot list" where
  "slots_at_event_ends parse sorted_events duration_mins work_end =
     (case slots_between parse sorted_events duration_mins of
        (between, False) \<Rightarrow> between
      | (between, True) \<Rightarrow>
          (case slot_after_last parse sorted_events duration_mins work_end of
             None \<Rightarrow> between
           | Some after \<Rightarrow> between @ after))"

definition find_free_slots ::
    "(string \<Rightarrow> datetime option) \<Rightarrow> event list \<Rightarrow> int \<Rightarrow> string \<Rightarrow> string \<Rightarrow> slot list" where
  "find_free_slots parse events duration_mins start_time end_time =
     (case parse_z parse start_time of
        None \<Rightarrow> []
      | Some day_start \<Rightarrow>
          (case parse_z parse end_time of
             None \<Rightarrow> []
           | Some day_end \<Rightarrow>
               (let work_start = dt_replace (Some 9) (Some 0) None day_start;
                    work_end = dt_replace (Some 18) (Some 0) None day_start;
                    sorted_events = sort_key StartTime events
                in case slot_before_first parse sorted_events duration_mins work_start of
                     None \<Rightarrow> []
                   | Some leading \<Rightarrow>
                       leading @ slots_at_event_ends parse sorted_events duration_mins work_end)))"

text \<open>
  \<open>check_time_conflict\<close>: whether an event and a proposed meeting overlap as half-open
  ranges; any exception gives \<open>False\<close>.
\<close>

definition check_time_conflict ::
    "(string \<Rightarrow> datetime option) \<Rightarrow> string \<Rightarrow> string \<Rightarrow> string \<Rightarrow> string \<Rightarrow> bool" where
  "check_time_conflict parse event_start event_end proposed_start proposed_end =
     (case (parse_z parse event_start, parse_z parse event_end,
            parse_z parse proposed_start, parse_z parse proposed_end) of
        (Some evt_start, Some evt_end, Some prop_start, Some prop_end) \<Rightarrow>
          (case dt_less_eq evt_end prop_start of
             None \<Rightarrow> False
           | Some True \<Rightarrow> False
           | Some False \<Rightarrow>
               (case dt_less_eq prop_end evt_start of
                  None \<Rightarrow> False
                | Some apart \<Rightarrow> \<not> apart))
      | _ \<Rightarrow> False)"

section \<open>The output assembler (output\_formatter.py)\<close>

text \<open>
  The incoming request: a key that the JSON object may lack is an option, and an attendee is
  its \<open>email\<close>.
\<close>

record request =
  Request_id :: "string option"
  Datetime :: "string option"
  Location :: "string option"
  From :: "string option"
  req_Attendees :: "string list option"
  Subject :: "string option"
  EmailContent :: "string option"

text \<open>\<open>d.get(key, default)\<close>\<close>

definition get_or :: "'a \<Rightarrow> 'a option \<Rightarrow> 'a" where
  "get_or dflt v = (case v of None \<Rightarrow> dflt | Some x \<Rightarrow> x)"

record attendee_entry =
  email :: string
  events :: "event list option"

datatype metadata =
  Resolution_meta (resolution_action: string) (resolution_reason: string)
    (scheduling_strategy: string) (meta_follow_up_meetings: "follow_up list option")
    (meta_follow_up_needed: "string list option") (meta_reschedule_needed: "string option")
| Rejection_meta (rejection_status: string) (rejection_reason: string) (rejection_message: string)
| Failure_meta (failure_error: string) (failure_status: string)

record response =
  out_Request_id :: string
  out_Datetime :: string
  out_Location :: string
  out_From :: string
  out_Attendees :: "attendee_entry list"
  out_Subject :: string
  out_EmailContent :: string
  EventStart :: string
  EventEnd :: string
  Duration_mins :: string
  MetaData :: metadata

text \<open>\<open>str(n)\<close> of an integer.\<close>

fun str_nat :: "nat \<Rightarrow> string" where
  "str_nat n = (if n < 10 then [char_of (48 + n)] else str_nat (n div 10) @ [char_of (48 + n mod 10)])"

definition str_int :: "int \<Rightarrow> string" where
  "str_int i = (if i < 0 then ''-'' @ str_nat (nat (- i)) else str_nat (nat i))"

text \<open>
  \<open>_calculate_end_time\<close>: every exception of its \<open>try\<close> block, from the parse or from the
  addition, ends in the fallback, the start string itself.
\<close>

definition calculate_end_time :: "(string \<Rightarrow> datetime option) \<Rightarrow> string \<Rightarrow> int \<Rightarrow> string" where
  "calculate_end_time parse start_time_str duration_mins =
     (case parse (replace ''+05:30'' [] start_time_str) of
        None \<Rightarrow> start_time_str
      | Some start_time \<Rightarrow>
          (case plus_minutes start_time duration_mins of
             None \<Rightarrow> start_time_str
           | Some end_time \<Rightarrow> strftime end_time))"

text \<open>
  \<open>list(set(xs))\<close> keeps one copy of each element in an order that Python does not fix; the
  functions take it as the argument \<open>dedup\<close>.
\<close>

definition build_attendees_events ::
    "(string list \<Rightarrow> string list) \<Rightarrow> string list \<Rightarrow> calendars \<Rightarrow> string \<Rightarrow> string \<Rightarrow> string
      \<Rightarrow> request \<Rightarrow> attendee_entry list" where
  "build_attendees_events dedup included_participants all_participants_events
       meeting_start meeting_end meeting_subject original_request =
     (let all_participants =
            dedup (get_or [] (From original_request) # get_or [] (req_Attendees original_request))
      in map (\<lambda>participant.
                (let existing = (case map_of all_participants_events participant of
                                   None \<Rightarrow> [] | Some evs \<Rightarrow> evs);
                     new_meeting_event =
                       \<lparr>StartTime = meeting_start, EndTime = meeting_end,
                        NumAttendees = length included_participants,
                        Attendees = included_participants,
                        Summary = meeting_subject\<rparr>;
                     participant_events =
                       existing @ (if participant \<in> set included_participants
                                   then [new_meeting_event] else [])
                 in \<lparr>email = participant,
                     events = Some (sort_key StartTime participant_events)\<rparr>))
             all_participants)"

definition get_scheduling_strategy :: "resolution \<Rightarrow> string" where
  "get_scheduling_strategy resolution_result =
     (let a = action resolution_result in
      if a = ''schedule_all'' then ''All participants available - direct scheduling''
      else if a = ''schedule_partial'' then ''Partial scheduling with available participants''
      else if a = ''reschedule_tomorrow'' then ''All busy - rescheduled to next day''
      else if a = ''schedule_organizer_first''
        then ''Organizer and available participants first, follow-up with busy participants''
      else if a = ''schedule_all_with_reschedule''
        then ''All participants scheduled with low-priority meeting rescheduled''
      else ''Standard scheduling'')"

definition build_metadata :: "resolution \<Rightarrow> metadata" where
  "build_metadata resolution_result =
     Resolution_meta (action resolution_result) (reason resolution_result)
       (get_scheduling_strategy resolution_result)
       (follow_up_meetings resolution_result) (follow_up_needed resolution_result)
       (reschedule_needed resolution_result)"

text \<open>\<open>original_request['Subject']\<close> raises \<open>KeyError\<close> when the request has no subject.\<close>

definition format_output ::
    "(string \<Rightarrow> datetime option) \<Rightarrow> (string list \<Rightarrow> string list) \<Rightarrow> request \<Rightarrow> resolution
      \<Rightarrow> calendars \<Rightarrow> error + response" where
  "format_output parse dedup original_request resolution_result all_participants_events =
     (let start_time = recommended_time resolution_result;
          duration_mins = meeting_duration resolution_result;
          end_time = calculate_end_time parse start_time duration_mins
      in case Subject original_request of
           None \<Rightarrow> Inl (KeyError ''Subject'')
         | Some meeting_subject \<Rightarrow>
             Inr \<lparr>out_Request_id = get_or [] (Request_id original_request),
                  out_Datetime = get_or [] (Datetime original_request),
                  out_Location = get_or [] (Location original_request),
                  out_From = get_or [] (From original_request),
                  out_Attendees =
                    build_attendees_events dedup (participants_to_include resolution_result)
                      all_participants_events start_time end_time meeting_subject original_request,
                  out_Subject = get_or [] (Subject original_request),
                  out_EmailContent = get_or [] (EmailContent original_request),
                  EventStart = start_time,
                  EventEnd = end_time,
                  Duration_mins = str_int duration_mins,
                  MetaData = build_metadata resolution_result\<rparr>)"

section \<open>The assistant (meeting\_assistant.py)\<close>

definition manual_parse_request :: "(string list \<Rightarrow> string list) \<Rightarrow> request \<Rightarrow> parsed_request" where
  "manual_parse_request dedup data =
     (let email_content = lower (get_or [] (EmailContent data));
          email_lower = lower email_content
      in \<lparr>participants = dedup (get_or [] (From data) # get_or [] (req_Attendees data)),
          pr_meeting_duration =
            (if contains ''30 minutes'' email_content \<or> contains ''half hour'' email_content then 30
             else if contains ''1 hour'' email_content \<or> contains ''an hour'' email_content then 60
             else if contains ''15 minutes'' email_content then 15
             else 30),
          time_constraints =
            (if any_in [''saturday'', ''sunday'', ''weekend''] email_lower then ''weekend''
             else if contains ''thursday'' email_lower then ''thursday''
             else if contains ''monday'' email_lower then ''monday''
             else if contains ''tuesday'' email_lower then ''tuesday''
             else if contains ''wednesday'' email_lower then ''wednesday''
             else if contains ''friday'' email_lower then ''friday''
             else if contains ''tomorrow'' email_lower then ''tomorrow''
             else ''next available time''),
          subject = get_or ''Meeting'' (Subject data),
          pr_From = get_or [] (From data)\<rparr>)"

text \<open>
  What the language model returns for an email, as far as the assistant reads it. The agent
  is a function from the email text to that answer, \<open>None\<close> when the call raises.
\<close>

record ai_parsed =
  ai_meeting_duration :: "int option"
  ai_time_constraints :: "string option"
  ai_subject :: "string option"

definition parse_meeting_request ::
    "(string \<Rightarrow> ai_parsed option) option \<Rightarrow> (string list \<Rightarrow> string list) \<Rightarrow> request
      \<Rightarrow> parsed_request" where
  "parse_meeting_request ai_agent dedup data =
     (let manual_result = manual_parse_request dedup data in
      case ai_agent of
        None \<Rightarrow> manual_result
      | Some parse_email \<Rightarrow>
          if time_constraints manual_result = ''next available time'' then
            (case parse_email (get_or [] (EmailContent data)) of
               None \<Rightarrow> manual_result
             | Some ai_parsed_data \<Rightarrow>
                 \<lparr>participants = dedup (get_or [] (From data) # get_or [] (req_Attendees data)),
                  pr_meeting_duration =
                    get_or (pr_meeting_duration manual_result) (ai_meeting_duration ai_parsed_data),
                  time_constraints =
                    get_or (time_constraints manual_result) (ai_time_constraints ai_parsed_data),
                  subject = get_or (get_or ''Meeting'' (ai_subject ai_parsed_data)) (Subject data),
                  pr_From = get_or [] (From data)\<rparr>)
          else manual_result)"

text \<open>
  The calendars are fetched by one thread per participant, joined with a timeout; \<open>fetch\<close>
  stands for the whole of it: the dict that the threads have filled for the participants and
  the window when the joins return.
\<close>

definition get_all_participants_events ::
    "(string list \<Rightarrow> string \<Rightarrow> string \<Rightarrow> calendars) \<Rightarrow> parsed_request \<Rightarrow> clock
      \<Rightarrow> (error + calendars) \<times> clock" where
  "get_all_participants_events fetch parsed_request clk =
     (if time_constraints parsed_request = ''weekend'' then
        (Inl (ValueError ''WEEKEND_MEETING_REQUESTED''), clk)
      else
        (case get_date_range_from_constraint (time_constraints parsed_request)
                (pr_meeting_duration parsed_request) clk of
           (None, clk') \<Rightarrow> (Inl (ValueError ''WEEKEND_MEETING_REQUESTED''), clk')
         | (Some (start_time, end_time), clk') \<Rightarrow>
             (Inr (fetch (participants parsed_request) start_time end_time), clk')))"

definition create_weekend_rejection_response :: "request \<Rightarrow> response" where
  "create_weekend_rejection_response data =
     \<lparr>out_Request_id = get_or [] (Request_id data),
      out_Datetime = get_or [] (Datetime data),
      out_Location = get_or [] (Location data),
      out_From = get_or [] (From data),
      out_Attendees = map (\<lambda>a. \<lparr>email = a, events = None\<rparr>) (get_or [] (req_Attendees data)),
      out_Subject = get_or [] (Subject data),
      out_EmailContent = get_or [] (EmailContent data),
      EventStart = [],
      EventEnd = [],
      Duration_mins = [],
      MetaData = Rejection_meta ''rejected'' ''Its weekends no meetings are possible''
        (''Weekend meetings are not allowed. ''
         @ ''Please schedule during business days (Monday-Friday).'')\<rparr>"

definition create_error_response :: "request \<Rightarrow> string \<Rightarrow> response" where
  "create_error_response data error_message =
     \<lparr>out_Request_id = get_or [] (Request_id data),
      out_Datetime = get_or [] (Datetime data),
      out_Location = get_or [] (Location data),
      out_From = get_or [] (From data),
      out_Attendees = map (\<lambda>a. \<lparr>email = a, events = None\<rparr>) (get_or [] (req_Attendees data)),
      out_Subject = get_or [] (Subject data),
      out_EmailContent = get_or [] (EmailContent data),
      EventStart = [],
      EventEnd = [],
      Duration_mins = ''30'',
      MetaData = Failure_meta error_message ''failed''\<rparr>"

text \<open>The \<open>except\<close> clause of \<open>your_meeting_assistant\<close>.\<close>

definition on_exception :: "request \<Rightarrow> error \<Rightarrow> response" where
  "on_exception data e =
     (if contains ''WEEKEND_MEETING_REQUESTED'' (str_error e)
      then create_weekend_rejection_response data
      else create_error_response data (str_error e))"

definition your_meeting_assistant ::
    "(string \<Rightarrow> ai_parsed option) option \<Rightarrow> (string list \<Rightarrow> string \<Rightarrow> string \<Rightarrow> calendars)
      \<Rightarrow> (string \<Rightarrow> datetime option) \<Rightarrow> (string list \<Rightarrow> string list) \<Rightarrow> request \<Rightarrow> clock
      \<Rightarrow> response \<times> clock" where
  "your_meeting_assistant ai_agent fetch parse dedup data clk =
     (let parsed_request = parse_meeting_request ai_agent dedup data in
      case get_all_participants_events fetch parsed_request clk of
        (Inl e, clk1) \<Rightarrow> (on_exception data e, clk1)
      | (Inr all_participants_events, clk1) \<Rightarrow>
          (case resolve_scheduling_conflicts parsed_request all_participants_events
                  (pr_meeting_duration parsed_request) clk1 of
             (Inl e, clk2) \<Rightarrow> (on_exception data e, clk2)
           | (Inr resolution_result, clk2) \<Rightarrow>
               (case format_output parse dedup data resolution_result all_participants_events of
                  Inl e \<Rightarrow> (on_exception data e, clk2)
                | Inr final_output \<Rightarrow> (final_output, clk2))))"

section \<open>Reading results and setting the clock\<close>

text \<open>The projection \<open>f\<close> of a result, \<open>None\<close> when the call raised.\<close>

definition on_result :: "('b \<Rightarrow> 'c) \<Rightarrow> 'a + 'b \<Rightarrow> 'c option" where
  "on_result f r = (case r of Inl e \<Rightarrow> None | Inr x \<Rightarrow> Some (f x))"

text \<open>
  A clock whose readings are the given timestamps in turn, the last one repeated from then
  on.
\<close>

definition wall_of :: "string \<Rightarrow> int" where
  "wall_of s = (case fromisoformat s of None \<Rightarrow> 0 | Some t \<Rightarrow> wall t)"

definition readings :: "string list \<Rightarrow> clock" where
  "readings ss n = (if ss = [] then 0 else wall_of (ss ! min n (length ss - 1)))"

text \<open>The agent that gives the same answer for every email.\<close>

definition agent_answering :: "ai_parsed \<Rightarrow> string \<Rightarrow> ai_parsed option" where
  "agent_answering answer email_content = Some answer"

text \<open>The fetch that finds the given calendars, whatever it is asked for.\<close>

definition fetch_of :: "calendars \<Rightarrow> string list \<Rightarrow> string \<Rightarrow> string \<Rightarrow> calendars" where
  "fetch_of cal ps start_time end_time = cal"

text \<open>A calendar event from one time to another on 17 July 2025, a Thursday.\<close>

definition busy_from :: "string \<Rightarrow> string \<Rightarrow> string \<Rightarrow> event" where
  "busy_from a b title =
     \<lparr>StartTime = ''2025-07-17T'' @ a @ '':00+05:30'', EndTime = ''2025-07-17T'' @ b @ '':00+05:30'',
      NumAttendees = 1, Attendees = [''SELF''], Summary = title\<rparr>"

section \<open>The availability analysis\<close>

lemma analyze_loop_eq:
  "analyze_loop m (a, b, d) =
     (a @ map fst (filter (\<lambda>x. snd x = []) m),
      b @ map fst (filter (\<lambda>x. snd x \<noteq> []) m),
      d @ map (\<lambda>x. (fst x, analyze_meeting_importance (snd x))) (filter (\<lambda>x. snd x \<noteq> []) m))"
  by (induction m arbitrary: a b d) auto

lemma available_eq:
  "available_participants (analyze_conflicts m) = map fst (filter (\<lambda>x. snd x = []) m)"
  by (simp add: analyze_conflicts_def analyze_loop_eq)

lemma busy_eq:
  "busy_participants (analyze_conflicts m) = map fst (filter (\<lambda>x. snd x \<noteq> []) m)"
  by (simp add: analyze_conflicts_def analyze_loop_eq)

lemma details_eq:
  "conflict_details (analyze_conflicts m) =
     map (\<lambda>x. (fst x, analyze_meeting_importance (snd x))) (filter (\<lambda>x. snd x \<noteq> []) m)"
  by (simp add: analyze_conflicts_def analyze_loop_eq)

lemma flags_eq:
  "all_free (analyze_conflicts m) = (\<forall>x\<in>set m. snd x = [])"
  "some_busy (analyze_conflicts m) = ((\<exists>x\<in>set m. snd x \<noteq> []) \<and> (\<exists>x\<in>set m. snd x = []))"
proof -
  let ?b = "filter (\<lambda>x. snd x \<noteq> []) m"
  have af: "all_free (analyze_conflicts m) = (?b = [])"
    by (simp add: analyze_conflicts_def analyze_loop_eq)
  show "all_free (analyze_conflicts m) = (\<forall>x\<in>set m. snd x = [])"
    unfolding af by (simp add: filter_empty_conv)
  have sb: "some_busy (analyze_conflicts m) = (?b \<noteq> [] \<and> length ?b < length m)"
    by (simp add: analyze_conflicts_def analyze_loop_eq)
  have "length ?b < length m \<longleftrightarrow> (\<exists>x\<in>set m. snd x = [])"
    using length_filter_less[of _ m "\<lambda>x. snd x \<noteq> []"] 
    by (metis (mono_tags, lifting) filter_True less_irrefl_nat)
  then show "some_busy (analyze_conflicts m) = ((\<exists>x\<in>set m. snd x \<noteq> []) \<and> (\<exists>x\<in>set m. snd x = []))"
    unfolding sb by (auto simp: filter_empty_conv)
qed

text \<open>
  C9. For every mapping of participants to event lists (a dict, so with distinct keys), the
  analysis puts a participant among the available ones exactly when that participant's
  event list is empty and among the busy ones otherwise; the available and the busy
  participants are disjoint, and together they are all the participants of the mapping.
\<close>

theorem availability_partition:
  assumes "distinct (map fst m)"
  shows "(\<forall>p evs. map_of m p = Some evs \<longrightarrow>
            (p \<in> set (available_participants (analyze_conflicts m)) \<longleftrightarrow> evs = [])
          \<and> (p \<in> set (busy_participants (analyze_conflicts m)) \<longleftrightarrow> evs \<noteq> []))
       \<and> set (available_participants (analyze_conflicts m))
           \<inter> set (busy_participants (analyze_conflicts m)) = {}
       \<and> set (available_participants (analyze_conflicts m))
           \<union> set (busy_participants (analyze_conflicts m)) = fst ` set m"
proof -
  have uniq: "\<And>p e e'. (p, e) \<in> set m \<Longrightarrow> (p, e') \<in> set m \<Longrightarrow> e = e'"
    using assms by (meson eq_key_imp_eq_value)
  have a: "\<And>p. p \<in> set (available_participants (analyze_conflicts m)) \<longleftrightarrow> (p, []) \<in> set m"
    by (force simp: available_eq)
  have b: "\<And>p. p \<in> set (busy_participants (analyze_conflicts m))
              \<longleftrightarrow> (\<exists>e. e \<noteq> [] \<and> (p, e) \<in> set m)"
    by (force simp: busy_eq)
  have c: "\<And>p evs. map_of m p = Some evs \<longleftrightarrow> (p, evs) \<in> set m"
    using assms by simp
  have 1: "\<forall>p evs. map_of m p = Some evs \<longrightarrow>
            (p \<in> set (available_participants (analyze_conflicts m)) \<longleftrightarrow> evs = [])
          \<and> (p \<in> set (busy_participants (analyze_conflicts m)) \<longleftrightarrow> evs \<noteq> [])"
  proof (intro allI impI)
    fix p evs assume "map_of m p = Some evs"
    then have in_m: "(p, evs) \<in> set m" by (simp add: c)
    have "(p, []) \<in> set m \<longleftrightarrow> evs = []" using in_m uniq by blast
    moreover have "(\<exists>e. e \<noteq> [] \<and> (p, e) \<in> set m) \<longleftrightarrow> evs \<noteq> []" using in_m uniq by blast
    ultimately show "(p \<in> set (available_participants (analyze_conflicts m)) \<longleftrightarrow> evs = [])
          \<and> (p \<in> set (busy_participants (analyze_conflicts m)) \<longleftrightarrow> evs \<noteq> [])"
      by (simp only: a b)
  qed
  have 2: "set (available_participants (analyze_conflicts m))
           \<inter> set (busy_participants (analyze_conflicts m)) = {}"
  proof -
    have "\<And>p. \<not> (p \<in> set (available_participants (analyze_conflicts m))
                \<and> p \<in> set (busy_participants (analyze_conflicts m)))"
      unfolding a b using uniq by blast
    then show ?thesis by blast
  qed
  have 3: "set (available_participants (analyze_conflicts m))
           \<union> set (busy_participants (analyze_conflicts m)) = fst ` set m"
  proof -
    have in_fst: "\<And>p. p \<in> fst ` set m \<longleftrightarrow> (\<exists>e. (p, e) \<in> set m)"
    proof
      fix p assume "p \<in> fst ` set m"
      then obtain x where "x \<in> set m" "p = fst x" by blast
      then have "(p, snd x) \<in> set m" by simp
      then show "\<exists>e. (p, e) \<in> set m" by blast
    next
      fix p assume "\<exists>e. (p, e) \<in> set m"
      then obtain e where "(p, e) \<in> set m" by blast
      then have "fst (p, e) \<in> fst ` set m" by (rule imageI)
      then show "p \<in> fst ` set m" by simp
    qed
    have "\<And>p. ((p, []) \<in> set m \<or> (\<exists>e. e \<noteq> [] \<and> (p, e) \<in> set m)) \<longleftrightarrow> (\<exists>e. (p, e) \<in> set m)"
    proof -
      fix p
      show "((p, []) \<in> set m \<or> (\<exists>e. e \<noteq> [] \<and> (p, e) \<in> set m)) \<longleftrightarrow> (\<exists>e. (p, e) \<in> set m)"
      proof (cases "(p, []) \<in> set m")
        case True
        then show ?thesis by auto
      next
        case False
        then have "\<And>e. (p, e) \<in> set m \<Longrightarrow> e \<noteq> []" by auto
        then show ?thesis using False by auto
      qed
    qed
    then have "\<And>p. (p \<in> set (available_participants (analyze_conflicts m))
                \<or> p \<in> set (busy_participants (analyze_conflicts m))) \<longleftrightarrow> p \<in> fst ` set m"
      by (simp only: a b in_fst)
    then show ?thesis by (simp add: set_eq_iff)
  qed
  show ?thesis by (rule conjI[OF 1 conjI[OF 2 3]])
qed


theorem availability_partition_witness:
  "distinct (map fst [(''a@x.com'', []), (''b@x.com'', [busy_from ''10:00'' ''11:00'' ''Coffee break''])])
   \<and> set (available_participants (analyze_conflicts
        [(''a@x.com'', []), (''b@x.com'', [busy_from ''10:00'' ''11:00'' ''Coffee break''])]))
       \<inter> set (busy_participants (analyze_conflicts
        [(''a@x.com'', []), (''b@x.com'', [busy_from ''10:00'' ''11:00'' ''Coffee break''])])) = {}"
proof -
  have h: "distinct (map fst [(''a@x.com'', []),
             (''b@x.com'', [busy_from ''10:00'' ''11:00'' ''Coffee break''])])"
    by simp
  show ?thesis using h availability_partition [OF h] by blast
qed

section \<open>The importance classifier\<close>

lemma scan_keywords_eq:
  "scan_keywords level kws s imp = (if any_in kws s then level else imp)"
  by (induction kws) (auto simp: any_in_def)

lemma classify_eq:
  "classify s =
     (if any_in [''client'', ''customer'', ''urgent'', ''critical'', ''ceo'', ''board'', ''emergency''] (lower s)
      then High
      else if any_in [''lunch'', ''coffee'', ''break'', ''personal'', ''training''] (lower s) then Low
      else Medium)"
  by (simp add: classify_def importance_keywords_def scan_keywords_eq Let_def)

text \<open>
  C2. The classifier is claimed to give a subject the tier of the first keyword set that
  matches, in the order high, medium, low, so that a subject with a medium and a low keyword
  is medium. The loop leaves the levels only when the importance differs from
  \<open>'medium'\<close>, so a match in the medium set does not end it: the subject ``Team lunch''
  contains the medium keyword \<open>team\<close> and the low keyword \<open>lunch\<close>, and is classified low.
\<close>

theorem medium_keyword_gives_way_to_low:
  "map_of importance_keywords Medium
     = Some [''team'', ''project'', ''review'', ''planning'', ''discussion'']
   \<and> contains ''team'' (lower ''Team lunch'')
   \<and> contains ''lunch'' (lower ''Team lunch'')
   \<and> classify ''Team lunch'' = Low
   \<and> map rated_importance (analyze_meeting_importance [busy_from ''13:00'' ''14:00'' ''Team lunch''])
       = [Low]"
  by code_simp

section \<open>The action of the decision engine\<close>

lemma has_low_eq:
  "has_low_priority_conflict (analyze_meeting_importance evs)
     = (\<exists>ev\<in>set evs. classify (Summary ev) = Low)"
  by (simp add: has_low_priority_conflict_def analyze_meeting_importance_def list_ex_iff)

lemma find_filter: "find P xs = Some x \<Longrightarrow> \<exists>zs. filter P xs = x # zs"
  by (induction xs) (auto split: if_splits)

lemma first_busy:
  assumes "find (\<lambda>x. snd x \<noteq> []) m = Some (p, evs)"
  shows "\<exists>ps. busy_participants (analyze_conflicts m) = p # ps"
    and "map_of (conflict_details (analyze_conflicts m)) p = Some (analyze_meeting_importance evs)"
proof -
  obtain zs where f: "filter (\<lambda>x. snd x \<noteq> []) m = (p, evs) # zs"
    using find_filter[OF assms] by blast
  show "\<exists>ps. busy_participants (analyze_conflicts m) = p # ps"
    by (simp add: busy_eq f)
  show "map_of (conflict_details (analyze_conflicts m)) p = Some (analyze_meeting_importance evs)"
    by (simp add: details_eq f)
qed

lemma no_busy:
  "find (\<lambda>x. snd x \<noteq> []) m = None \<longleftrightarrow> (\<forall>x\<in>set m. snd x = [])"
  by (induction m) auto

lemma find_nonempty: "find (\<lambda>x. snd x \<noteq> []) m = Some (p, evs) \<Longrightarrow> (p, evs) \<in> set m \<and> evs \<noteq> []"
  by (induction m) (auto split: if_splits)

lemma action_partial:
  "on_result action (fst (schedule_partial_meeting pr av bs d clk)) \<noteq> Some ''schedule_all_with_reschedule''"
  by (simp add: schedule_partial_meeting_def on_result_def split_def Let_def)

text \<open>
  C1, as amended. The engine returns the action \<open>schedule_all_with_reschedule\<close> exactly when
  some participant is available, the subject contains no requires-everyone keyword, and the
  first busy participant of the calendars (there may be several busy ones) has an event of
  tier low; in that case the included participants are all the participants of the request
  and the participant to reschedule is that first busy participant.
\<close>

theorem reschedule_action_iff:
  "(on_result action (fst (resolve_scheduling_conflicts pr m d clk)) = Some ''schedule_all_with_reschedule''
     \<longleftrightarrow> (\<exists>x\<in>set m. snd x = [])
         \<and> \<not> any_in critical_keywords (lower (subject pr))
         \<and> (\<exists>p evs. find (\<lambda>x. snd x \<noteq> []) m = Some (p, evs)
                \<and> (\<exists>ev\<in>set evs. classify (Summary ev) = Low)))
   \<and> (\<forall>p evs. (\<exists>x\<in>set m. snd x = [])
         \<and> \<not> any_in critical_keywords (lower (subject pr))
         \<and> find (\<lambda>x. snd x \<noteq> []) m = Some (p, evs)
         \<and> (\<exists>ev\<in>set evs. classify (Summary ev) = Low)
        \<longrightarrow> on_result participants_to_include (fst (resolve_scheduling_conflicts pr m d clk))
              = Some (participants pr)
          \<and> on_result reschedule_needed (fst (resolve_scheduling_conflicts pr m d clk))
              = Some (Some p))"
proof (cases "find (\<lambda>x. snd x \<noteq> []) m")
  case None
  then have free: "\<forall>x\<in>set m. snd x = []" by (simp add: no_busy)
  then have "all_free (analyze_conflicts m)" by (simp add: flags_eq)
  then have "on_result action (fst (resolve_scheduling_conflicts pr m d clk)) = Some ''schedule_all''"
    by (simp add: resolve_scheduling_conflicts_def schedule_all_participants_def on_result_def split_def)
  then show ?thesis using None by simp
next
  case (Some a)
  obtain p evs where a: "a = (p, evs)" by (cases a)
  have fnd: "find (\<lambda>x. snd x \<noteq> []) m = Some (p, evs)" using Some a by simp
  have busy: "(p, evs) \<in> set m" "evs \<noteq> []" using find_nonempty[OF fnd] by simp_all
  then have not_free: "\<not> all_free (analyze_conflicts m)" by (force simp: flags_eq)
  obtain ps where bp: "busy_participants (analyze_conflicts m) = p # ps"
    using first_busy(1)[OF fnd] by blast
  have det: "map_of (conflict_details (analyze_conflicts m)) p = Some (analyze_meeting_importance evs)"
    by (rule first_busy(2)[OF fnd])
  have sb: "some_busy (analyze_conflicts m) = (\<exists>x\<in>set m. snd x = [])"
    using busy by (force simp: flags_eq)
  show ?thesis
  proof (cases "(\<exists>x\<in>set m. snd x = []) \<and> \<not> any_in critical_keywords (lower (subject pr))
                  \<and> (\<exists>ev\<in>set evs. classify (Summary ev) = Low)")
    case True
    then have "fst (resolve_scheduling_conflicts pr m d clk)
                 = Inr (fst (schedule_with_reschedule pr p d clk))"
      using not_free sb bp det
      by (simp add: resolve_scheduling_conflicts_def handle_partial_conflicts_def has_low_eq
            split_def Let_def)
    then show ?thesis using True fnd
      by (simp add: schedule_with_reschedule_def on_result_def split_def)
  next
    case False
    have "on_result action (fst (resolve_scheduling_conflicts pr m d clk))
            \<noteq> Some ''schedule_all_with_reschedule''"
    proof (cases "\<exists>x\<in>set m. snd x = []")
      case no_free: False
      then have "\<not> some_busy (analyze_conflicts m)" using sb by simp
      then show ?thesis using not_free
        by (simp add: resolve_scheduling_conflicts_def handle_all_busy_def on_result_def split_def)
    next
      case some_free: True
      show ?thesis
      proof (cases "any_in critical_keywords (lower (subject pr))")
        case True
        then show ?thesis using not_free sb some_free
          by (simp add: resolve_scheduling_conflicts_def handle_partial_conflicts_def
                reschedule_for_all_def on_result_def split_def Let_def)
      next
        case no_kw: False
        then have "\<not> (\<exists>ev\<in>set evs. classify (Summary ev) = Low)" using False some_free by blast
        then have "fst (resolve_scheduling_conflicts pr m d clk)
              = fst (schedule_partial_meeting pr (available_participants (analyze_conflicts m))
                      (busy_participants (analyze_conflicts m)) d clk)"
          using not_free sb some_free no_kw bp det
          by (simp add: resolve_scheduling_conflicts_def handle_partial_conflicts_def has_low_eq
                Let_def)
        then show ?thesis by (simp add: action_partial)
      qed
    qed
    then show ?thesis using False fnd by auto
  qed
qed


theorem reschedule_action_iff_witness:
  "(\<exists>x\<in>set [(''a@x.com'', []), (''b@x.com'', [busy_from ''10:00'' ''11:00'' ''Coffee break''])].
       snd x = [])
   \<and> \<not> any_in critical_keywords (lower ''Project sync'')
   \<and> find (\<lambda>x. snd x \<noteq> [])
        [(''a@x.com'', []), (''b@x.com'', [busy_from ''10:00'' ''11:00'' ''Coffee break''])]
       = Some (''b@x.com'', [busy_from ''10:00'' ''11:00'' ''Coffee break''])
   \<and> (\<exists>ev\<in>set [busy_from ''10:00'' ''11:00'' ''Coffee break'']. classify (Summary ev) = Low)
   \<and> on_result action (fst (resolve_scheduling_conflicts
        \<lparr>participants = [''a@x.com'', ''b@x.com''], pr_meeting_duration = 30,
         time_constraints = ''thursday'', subject = ''Project sync'', pr_From = ''a@x.com''\<rparr>
        [(''a@x.com'', []), (''b@x.com'', [busy_from ''10:00'' ''11:00'' ''Coffee break''])]
        30 (readings [''2025-07-14T09:15:00''])))
       = Some ''schedule_all_with_reschedule''
   \<and> on_result reschedule_needed (fst (resolve_scheduling_conflicts
        \<lparr>participants = [''a@x.com'', ''b@x.com''], pr_meeting_duration = 30,
         time_constraints = ''thursday'', subject = ''Project sync'', pr_From = ''a@x.com''\<rparr>
        [(''a@x.com'', []), (''b@x.com'', [busy_from ''10:00'' ''11:00'' ''Coffee break''])]
        30 (readings [''2025-07-14T09:15:00''])))
       = Some (Some ''b@x.com'')"
proof -
  let ?m = "[(''a@x.com'', []), (''b@x.com'', [busy_from ''10:00'' ''11:00'' ''Coffee break''])]"
  let ?pr = "\<lparr>participants = [''a@x.com'', ''b@x.com''], pr_meeting_duration = 30,
         time_constraints = ''thursday'', subject = ''Project sync'', pr_From = ''a@x.com''\<rparr>"
  have h1: "\<exists>x\<in>set ?m. snd x = []" by simp
  have h2: "\<not> any_in critical_keywords (lower (subject ?pr))" by code_simp
  have h3: "find (\<lambda>x. snd x \<noteq> []) ?m
              = Some (''b@x.com'', [busy_from ''10:00'' ''11:00'' ''Coffee break''])"
    by simp
  have h4: "\<exists>ev\<in>set [busy_from ''10:00'' ''11:00'' ''Coffee break'']. classify (Summary ev) = Low"
    by code_simp
  note T = reschedule_action_iff [of ?pr ?m 30 "readings [''2025-07-14T09:15:00'']"]
  have a: "on_result action (fst (resolve_scheduling_conflicts ?pr ?m 30
              (readings [''2025-07-14T09:15:00''])))
            = Some ''schedule_all_with_reschedule''"
    using T h1 h2 h3 h4 by blast
  have b: "on_result reschedule_needed (fst (resolve_scheduling_conflicts ?pr ?m 30
              (readings [''2025-07-14T09:15:00''])))
            = Some (Some ''b@x.com'')"
    using T h1 h2 h3 h4 by blast
  have h2': "\<not> any_in critical_keywords (lower ''Project sync'')" using h2 by simp
  show ?thesis using h1 h2' h3 h4 a b by blast
qed


text \<open>
  C1 as stated, with exactly one busy participant, fails: with \<open>b\<close> and \<open>c\<close> both busy, and a
  coffee break in the calendar of \<open>b\<close>, the action is \<open>schedule_all_with_reschedule\<close>.
\<close>

theorem reschedule_with_two_busy_counterexample:
  "on_result action (fst (resolve_scheduling_conflicts
       \<lparr>participants = [''a@x.com'', ''b@x.com'', ''c@x.com''], pr_meeting_duration = 30,
        time_constraints = ''thursday'', subject = ''Project sync'', pr_From = ''a@x.com''\<rparr>
       [(''a@x.com'', []),
        (''b@x.com'', [busy_from ''10:00'' ''11:00'' ''Coffee break'']),
        (''c@x.com'', [busy_from ''10:00'' ''11:00'' ''Client call''])]
       30 (readings [''2025-07-14T09:15:00''])))
     = Some ''schedule_all_with_reschedule''
   \<and> busy_participants (analyze_conflicts
       [(''a@x.com'', []),
        (''b@x.com'', [busy_from ''10:00'' ''11:00'' ''Coffee break'']),
        (''c@x.com'', [busy_from ''10:00'' ''11:00'' ''Client call''])])
     = [''b@x.com'', ''c@x.com'']"
  by code_simp

section \<open>The fields of dates and times\<close>

lemma div_qr: "0 \<le> r \<Longrightarrow> r < b \<Longrightarrow> (q * b + r) div b = (q::int)"
  by (simp add: div_pos_pos_trivial)

lemma mod_qr: "0 \<le> r \<Longrightarrow> r < b \<Longrightarrow> (q * b + r) mod b = (r::int)"
  by (simp add: mod_pos_pos_trivial)

lemma weekday_bounds: "0 \<le> weekday u \<and> weekday u < 7"
  by (simp add: weekday_def)

lemma weekday_add_days: "weekday (dt_add u (days n)) = (weekday u + n) mod 7"
  by (simp add: weekday_def dt_add_def days_def mod_add_left_eq mod_add_right_eq add.commute)

lemma strftime_time:
  "drop 10 (strftime t) = ''T'' @ pad2 (hour t) @ '':'' @ pad2 (minute t) @ '':'' @ pad2 (second t) @ ''+05:30''"
  by (simp add: strftime_def print_fields_def pad2_def pad4_def split: prod.splits)

lemma pad2_ten: "pad2 10 = ''10''"
  by code_simp

lemma pad2_zero: "pad2 0 = ''00''"
  by code_simp

section \<open>Rescheduling when everybody is busy\<close>

text \<open>The day of the slot: the day after the reading, or the Monday after a Friday or Saturday.\<close>

lemma tomorrow_slot_wall:
  "tomorrow_slot now =
     now\<lparr>wall := (wall now div 86400
                     + (if weekday now = 4 then 3 else if weekday now = 5 then 2 else 1)) * 86400
                  + 36000\<rparr>"
proof -
  let ?t = "dt_add now (days 1)"
  let ?u = "if is_weekend ?t then dt_add ?t (days (days_to_monday ?t)) else ?t"
  let ?k = "if weekday now = 4 then 3 else if weekday now = 5 then 2 else (1::int)"
  have wt: "weekday ?t = (weekday now + 1) mod 7" by (rule weekday_add_days)
  have wn: "0 \<le> weekday now \<and> weekday now < 7" by (rule weekday_bounds)
  have day_t: "wall ?t div 86400 = wall now div 86400 + 1"
    by (simp add: dt_add_def days_def)
  have day_u: "wall ?u div 86400 = wall now div 86400 + ?k"
  proof (cases "weekday now = 4")
    case True
    then have "weekday ?t = 5" using wt by simp
    then have "is_weekend ?t" "days_to_monday ?t = 2"
      by (simp_all add: is_weekend_def days_to_monday_def)
    then show ?thesis using True by (simp add: dt_add_def days_def)
  next
    case nf: False
    show ?thesis
    proof (cases "weekday now = 5")
      case True
      then have "weekday ?t = 6" using wt by simp
      then have "is_weekend ?t" "days_to_monday ?t = 1"
        by (simp_all add: is_weekend_def days_to_monday_def)
      then show ?thesis using True by (simp add: dt_add_def days_def)
    next
      case False
      have "weekday now = 6 \<or> weekday now + 1 < 5" using wn nf False by linarith
      then have "weekday ?t < 5" using wt wn by auto
      then have "\<not> is_weekend ?t" by (simp add: is_weekend_def)
      then show ?thesis using nf False by (simp add: dt_add_def days_def)
    qed
  qed
  have "tomorrow_slot now = ?u\<lparr>wall := wall ?u div 86400 * 86400 + 36000\<rparr>"
    by (simp add: tomorrow_slot_def dt_replace_def Let_def)
  also have "\<dots> = now\<lparr>wall := (wall now div 86400 + ?k) * 86400 + 36000\<rparr>"
    unfolding day_u by (simp add: dt_add_def)
  finally show ?thesis .
qed

lemma next_business_day:
  fixes day :: int
  defines "k \<equiv> (if day mod 7 = 4 then 3 else if day mod 7 = 5 then 2 else (1::int))"
  shows "1 \<le> k" and "(day + k) mod 7 < 5" and "\<forall>j. 1 \<le> j \<and> j < k \<longrightarrow> 5 \<le> (day + j) mod 7"
proof -
  have e: "\<And>j. (day + j) mod 7 = (day mod 7 + j) mod 7"
    by (simp add: mod_add_left_eq)
  have r: "0 \<le> day mod 7" "day mod 7 < 7" by simp_all
  show "1 \<le> k" by (simp add: k_def)
  consider "day mod 7 = 4" | "day mod 7 = 5" | "day mod 7 = 6" | "day mod 7 < 4"
    using r by linarith
  then show "(day + k) mod 7 < 5"
  proof cases
    case 1 then show ?thesis by (simp add: k_def e)
  next
    case 2 then show ?thesis by (simp add: k_def e)
  next
    case 3 then show ?thesis by (simp add: k_def e)
  next
    case 4
    then have "day mod 7 + 1 < 5" "0 \<le> day mod 7 + 1" using r by simp_all
    then have "(day mod 7 + 1) mod 7 = day mod 7 + 1" by simp
    then show ?thesis using 4 by (simp add: k_def e)
  qed
  show "\<forall>j. 1 \<le> j \<and> j < k \<longrightarrow> 5 \<le> (day + j) mod 7"
  proof (intro allI impI)
    fix j :: int assume j: "1 \<le> j \<and> j < k"
    show "5 \<le> (day + j) mod 7"
    proof (cases "day mod 7 = 4")
      case True
      then have "j = 1 \<or> j = 2" using j by (simp add: k_def) linarith
      then show ?thesis using True by (auto simp: e)
    next
      case False
      then have "day mod 7 = 5 \<and> j = 1" using j by (simp add: k_def split: if_splits)
      then show ?thesis by (simp add: e)
    qed
  qed
qed

lemma ten_o_clock:
  "weekday \<lparr>wall = day * 86400 + 36000, utcoffset = off\<rparr> = day mod 7"
  "hour \<lparr>wall = day * 86400 + 36000, utcoffset = off\<rparr> = 10"
  "minute \<lparr>wall = day * 86400 + 36000, utcoffset = off\<rparr> = 0"
  "second \<lparr>wall = day * 86400 + 36000, utcoffset = off\<rparr> = 0"
proof -
  have d: "(day * 86400 + 36000) div 86400 = day" by (rule div_qr) simp_all
  have m: "(day * 86400 + 36000) mod 86400 = 36000" by (rule mod_qr) simp_all
  show "weekday \<lparr>wall = day * 86400 + 36000, utcoffset = off\<rparr> = day mod 7"
    by (simp add: weekday_def d)
  show "hour \<lparr>wall = day * 86400 + 36000, utcoffset = off\<rparr> = 10"
    by (simp add: hour_def m)
  have "(day * 86400 + 36000) mod 3600 = 0" by (simp add: mod_mult_self3 algebra_simps)
  then show "minute \<lparr>wall = day * 86400 + 36000, utcoffset = off\<rparr> = 0"
    by (simp add: minute_def)
  show "second \<lparr>wall = day * 86400 + 36000, utcoffset = off\<rparr> = 0"
    by (simp add: second_def)
qed

text \<open>
  C5. When every participant of a non-empty set of calendars is busy, the action is
  \<open>reschedule_tomorrow\<close>, the included participants are all the participants of the request,
  and the recommended start is 10:00:00 on the next business day after the day of the one
  reading of the wall clock that the call makes: \<open>k\<close> days after it, where the day reached
  is a weekday (Monday to Friday) and every day passed on the way is a Saturday or Sunday.
  The recommended start is the printed form of that instant and ends in \<open>T10:00:00+05:30\<close>.
\<close>

theorem all_busy_reschedules_tomorrow:
  assumes "m \<noteq> []" and "\<forall>x\<in>set m. snd x \<noteq> []"
  shows "\<exists>res k. resolve_scheduling_conflicts pr m d clk = (Inr res, \<lambda>n. clk (Suc n))
           \<and> action res = ''reschedule_tomorrow''
           \<and> participants_to_include res = participants pr
           \<and> 1 \<le> k
           \<and> (clk 0 div 86400 + k) mod 7 < 5
           \<and> (\<forall>j. 1 \<le> j \<and> j < k \<longrightarrow> 5 \<le> (clk 0 div 86400 + j) mod 7)
           \<and> recommended_time res
               = strftime \<lparr>wall = (clk 0 div 86400 + k) * 86400 + 36000, utcoffset = None\<rparr>
           \<and> weekday \<lparr>wall = (clk 0 div 86400 + k) * 86400 + 36000, utcoffset = None\<rparr> < 5
           \<and> hour \<lparr>wall = (clk 0 div 86400 + k) * 86400 + 36000, utcoffset = None\<rparr> = 10
           \<and> minute \<lparr>wall = (clk 0 div 86400 + k) * 86400 + 36000, utcoffset = None\<rparr> = 0
           \<and> second \<lparr>wall = (clk 0 div 86400 + k) * 86400 + 36000, utcoffset = None\<rparr> = 0
           \<and> drop 10 (recommended_time res) = ''T10:00:00+05:30''"
proof -
  obtain x where x: "x \<in> set m" using assms(1) by (cases m) auto
  then have "snd x \<noteq> []" using assms(2) by simp
  then have nf: "\<not> all_free (analyze_conflicts m)" using x by (auto simp: flags_eq)
  have nb: "\<not> some_busy (analyze_conflicts m)" using assms(2) by (simp add: flags_eq)
  let ?now = "\<lparr>wall = clk 0, utcoffset = None\<rparr>"
  let ?day = "clk 0 div 86400"
  define k where "k = (if ?day mod 7 = 4 then 3 else if ?day mod 7 = 5 then 2 else (1::int))"
  let ?slot = "\<lparr>wall = (?day + k) * 86400 + 36000, utcoffset = None\<rparr>"
  let ?res = "fst (handle_all_busy pr d clk)"
  have r: "resolve_scheduling_conflicts pr m d clk = (Inr ?res, \<lambda>n. clk (Suc n))"
    using nf nb
    by (simp add: resolve_scheduling_conflicts_def handle_all_busy_def get_tomorrow_time_def
          datetime_now_def)
  have ts: "tomorrow_slot ?now = ?slot"
    unfolding tomorrow_slot_wall k_def by (simp add: weekday_def)
  have rt: "recommended_time ?res = strftime ?slot"
    by (simp add: handle_all_busy_def get_tomorrow_time_def datetime_now_def ts)
  have act: "action ?res = ''reschedule_tomorrow''"
    by (simp add: handle_all_busy_def get_tomorrow_time_def datetime_now_def)
  have inc: "participants_to_include ?res = participants pr"
    by (simp add: handle_all_busy_def get_tomorrow_time_def datetime_now_def)
  have k1: "1 \<le> k" and k2: "(?day + k) mod 7 < 5"
    and k3: "\<forall>j. 1 \<le> j \<and> j < k \<longrightarrow> 5 \<le> (?day + j) mod 7"
    unfolding k_def by (rule next_business_day)+
  have wd: "weekday ?slot < 5" unfolding ten_o_clock(1) by (rule k2)
  have hms: "hour ?slot = 10" "minute ?slot = 0" "second ?slot = 0"
    by (rule ten_o_clock)+
  have pr: "drop 10 (recommended_time ?res) = ''T10:00:00+05:30''"
    unfolding rt strftime_time hms by (simp add: pad2_ten pad2_zero)
  show ?thesis
    by (rule exI[of _ ?res], rule exI[of _ k])
       (intro conjI, rule r, rule act, rule inc, rule k1, rule k2, rule k3, rule rt, rule wd,
        rule hms(1), rule hms(2), rule hms(3), rule pr)
qed


theorem all_busy_reschedules_tomorrow_witness:
  "[(''a@x.com'', [busy_from ''10:00'' ''11:00'' ''Design review'']),
    (''b@x.com'', [busy_from ''10:00'' ''11:00'' ''Client call''])] \<noteq> []
   \<and> map snd [(''a@x.com'', [busy_from ''10:00'' ''11:00'' ''Design review'']),
                (''b@x.com'', [busy_from ''10:00'' ''11:00'' ''Client call''])]
       = [[busy_from ''10:00'' ''11:00'' ''Design review''],
          [busy_from ''10:00'' ''11:00'' ''Client call'']]
   \<and> readings [''2025-07-18T16:45:10''] 0 div 86400 = 739449
   \<and> (739449 + 3) mod 7 = (0::int)
   \<and> on_result recommended_time (fst (resolve_scheduling_conflicts
        \<lparr>participants = [''a@x.com'', ''b@x.com''], pr_meeting_duration = 30,
         time_constraints = ''thursday'', subject = ''Project sync'', pr_From = ''a@x.com''\<rparr>
        [(''a@x.com'', [busy_from ''10:00'' ''11:00'' ''Design review'']),
         (''b@x.com'', [busy_from ''10:00'' ''11:00'' ''Client call''])]
        30 (readings [''2025-07-18T16:45:10''])))
      = Some ''2025-07-21T10:00:00+05:30''"
proof -
  let ?m = "[(''a@x.com'', [busy_from ''10:00'' ''11:00'' ''Design review'']),
             (''b@x.com'', [busy_from ''10:00'' ''11:00'' ''Client call''])]"
  let ?pr = "\<lparr>participants = [''a@x.com'', ''b@x.com''], pr_meeting_duration = 30,
         time_constraints = ''thursday'', subject = ''Project sync'', pr_From = ''a@x.com''\<rparr>"
  let ?clk = "readings [''2025-07-18T16:45:10'']"
  have h1: "?m \<noteq> []" by simp
  have h2: "\<forall>x\<in>set ?m. snd x \<noteq> []" by simp
  have h2': "map snd ?m = [[busy_from ''10:00'' ''11:00'' ''Design review''],
                          [busy_from ''10:00'' ''11:00'' ''Client call'']]"
    by simp
  have c0: "?clk 0 = 63888453910" by code_simp
  have day: "?clk 0 div 86400 = 739449" unfolding c0 by simp
  have monday: "(739449 + 3) mod 7 = (0::int)" by simp
  obtain res k where res: "resolve_scheduling_conflicts ?pr ?m 30 ?clk = (Inr res, \<lambda>n. ?clk (Suc n))"
    and k1: "1 \<le> k" and k2: "(?clk 0 div 86400 + k) mod 7 < 5"
    and k3: "\<forall>j. 1 \<le> j \<and> j < k \<longrightarrow> 5 \<le> (?clk 0 div 86400 + j) mod 7"
    and rt: "recommended_time res
               = strftime \<lparr>wall = (?clk 0 div 86400 + k) * 86400 + 36000, utcoffset = None\<rparr>"
    using all_busy_reschedules_tomorrow [OF h1 h2, of ?pr 30 ?clk] by blast
  have "\<not> 3 < k" using k3 [rule_format, of 3] unfolding day by auto
  then have "k = 1 \<or> k = 2 \<or> k = 3" using k1 by linarith
  then have k: "k = 3" using k2 unfolding day by auto
  have "strftime \<lparr>wall = (739449 + 3) * 86400 + 36000, utcoffset = None\<rparr>
          = ''2025-07-21T10:00:00+05:30''"
    by code_simp
  then have "recommended_time res = ''2025-07-21T10:00:00+05:30''"
    unfolding rt day k by simp
  then have out: "on_result recommended_time (fst (resolve_scheduling_conflicts ?pr ?m 30 ?clk))
               = Some ''2025-07-21T10:00:00+05:30''"
    using res by (simp add: on_result_def)
  show ?thesis by (intro conjI) (rule h1, rule h2', rule day, rule monday, rule out)
qed

section \<open>The organizer among the included participants\<close>

lemma partial_meeting_organizer_first:
  assumes "fst (schedule_partial_meeting pr av bs d clk) = Inr res"
    and "action res = ''schedule_organizer_first''"
  shows "participants_to_include res = pr_From pr # av"
proof (cases "contains ''feedback'' (lower (subject pr)) \<and> 1 \<le> length av")
  case True
  then have "action res = ''schedule_partial''"
    using assms(1) by (auto simp: schedule_partial_meeting_def split_def Let_def)
  then show ?thesis using assms(2) by simp
next
  case nofb: False
  show ?thesis
  proof (cases "participants pr = []")
    case True
    then show ?thesis using assms(1) nofb
      by (simp add: schedule_partial_meeting_def split_def Let_def split: if_splits)
  next
    case False
    then show ?thesis using assms(1) nofb
      by (auto simp: schedule_partial_meeting_def split_def Let_def split: if_splits)
  qed
qed

lemma partial_conflicts_organizer_first:
  assumes "fst (handle_partial_conflicts pr m ca d clk) = Inr res"
    and "action res = ''schedule_organizer_first''"
  shows "fst (schedule_partial_meeting pr (available_participants ca) (busy_participants ca) d clk)
           = Inr res"
proof (cases "any_in critical_keywords (lower (subject pr))")
  case True
  then have "action res = ''reschedule_tomorrow''"
    using assms(1)
    by (auto simp: handle_partial_conflicts_def reschedule_for_all_def split_def Let_def)
  then show ?thesis using assms(2) by simp
next
  case nokw: False
  show ?thesis
  proof (cases "busy_participants ca")
    case Nil
    then show ?thesis using assms(1) nokw by (simp add: handle_partial_conflicts_def Let_def)
  next
    case (Cons p ps)
    show ?thesis
    proof (cases "map_of (conflict_details ca) p")
      case None
      then show ?thesis using assms(1) nokw Cons
        by (simp add: handle_partial_conflicts_def Let_def)
    next
      case (Some evs)
      show ?thesis
      proof (cases "has_low_priority_conflict evs")
        case True
        then have "action res = ''schedule_all_with_reschedule''"
          using assms(1) nokw Cons Some
          by (auto simp: handle_partial_conflicts_def schedule_with_reschedule_def split_def Let_def)
        then show ?thesis using assms(2) by simp
      next
        case False
        then show ?thesis using assms(1) nokw Cons Some
          by (simp add: handle_partial_conflicts_def Let_def)
      qed
    qed
  qed
qed

lemma new_meeting_in_output:
  assumes "format_output parse dedup data res cal = Inr out"
    and "entry \<in> set (out_Attendees out)"
    and "email entry \<in> set (participants_to_include res)"
  shows "\<exists>ev\<in>set (get_or [] (events entry)).
           StartTime ev = recommended_time res
           \<and> Attendees ev = participants_to_include res
           \<and> NumAttendees ev = length (participants_to_include res)"
proof -
  obtain subj where subj: "Subject data = Some subj"
    using assms(1) by (cases "Subject data") (simp_all add: format_output_def Let_def)
  have "out_Attendees out = build_attendees_events dedup (participants_to_include res) cal
          (recommended_time res)
          (calculate_end_time parse (recommended_time res) (meeting_duration res)) subj data"
    using assms(1) subj by (auto simp: format_output_def Let_def)
  then obtain p where p: "p \<in> set (participants_to_include res)"
    "events entry = Some (sort_key StartTime
        ((case map_of cal p of None \<Rightarrow> [] | Some evs \<Rightarrow> evs)
         @ [\<lparr>StartTime = recommended_time res,
              EndTime = calculate_end_time parse (recommended_time res) (meeting_duration res),
              NumAttendees = length (participants_to_include res),
              Attendees = participants_to_include res, Summary = subj\<rparr>]))"
    using assms(2,3) by (auto simp: build_attendees_events_def Let_def)
  show ?thesis unfolding p(2) by (simp add: get_or_def)
qed

text \<open>
  C10. When the action is \<open>schedule_organizer_first\<close>, the included participants are the
  organizer (the \<open>From\<close> of the request) put in front of the available participants. If the
  organizer is one of the available participants, the list holds the organizer twice, so it
  is not free of duplicates; and in the response every included attendee gets the new
  meeting with those attendees and a \<open>NumAttendees\<close> of one more than the number of available
  participants, which counts the organizer twice.
\<close>

theorem organizer_first_duplicates:
  assumes "fst (resolve_scheduling_conflicts pr m d clk) = Inr res"
    and "action res = ''schedule_organizer_first''"
  shows "participants_to_include res = pr_From pr # available_participants (analyze_conflicts m)
       \<and> (pr_From pr \<in> set (available_participants (analyze_conflicts m))
            \<longrightarrow> \<not> distinct (participants_to_include res))
       \<and> (\<forall>out. format_output parse dedup data res cal = Inr out \<longrightarrow>
            (\<forall>entry\<in>set (out_Attendees out).
               email entry \<in> set (participants_to_include res) \<longrightarrow>
               (\<exists>ev\<in>set (get_or [] (events entry)).
                  StartTime ev = recommended_time res
                  \<and> Attendees ev = participants_to_include res
                  \<and> NumAttendees ev = Suc (length (available_participants (analyze_conflicts m))))))"
proof -
  let ?ca = "analyze_conflicts m"
  have inc: "participants_to_include res = pr_From pr # available_participants ?ca"
  proof (cases "all_free ?ca")
    case True
    then have "action res = ''schedule_all''" using assms(1)
      by (auto simp: resolve_scheduling_conflicts_def schedule_all_participants_def split_def)
    then show ?thesis using assms(2) by simp
  next
    case nf: False
    show ?thesis
    proof (cases "some_busy ?ca")
      case False
      then have "action res = ''reschedule_tomorrow''" using assms(1) nf
        by (auto simp: resolve_scheduling_conflicts_def handle_all_busy_def split_def)
      then show ?thesis using assms(2) by simp
    next
      case True
      then have "fst (handle_partial_conflicts pr m ?ca d clk) = Inr res"
        using assms(1) nf by (simp add: resolve_scheduling_conflicts_def)
      then show ?thesis
        using assms(2) partial_conflicts_organizer_first partial_meeting_organizer_first
        by blast
    qed
  qed
  have dup: "pr_From pr \<in> set (available_participants ?ca) \<longrightarrow> \<not> distinct (participants_to_include res)"
    by (simp add: inc)
  have len: "length (participants_to_include res) = Suc (length (available_participants ?ca))"
    by (simp add: inc)
  have out: "\<forall>out. format_output parse dedup data res cal = Inr out \<longrightarrow>
            (\<forall>entry\<in>set (out_Attendees out).
               email entry \<in> set (participants_to_include res) \<longrightarrow>
               (\<exists>ev\<in>set (get_or [] (events entry)).
                  StartTime ev = recommended_time res
                  \<and> Attendees ev = participants_to_include res
                  \<and> NumAttendees ev = Suc (length (available_participants ?ca))))"
    using new_meeting_in_output[of parse dedup data res cal] unfolding len by blast
  show ?thesis by (rule conjI[OF inc conjI[OF dup out]])
qed


theorem organizer_first_duplicates_witness:
  "fst (resolve_scheduling_conflicts
        \<lparr>participants = [''a@x.com'', ''b@x.com''], pr_meeting_duration = 30,
         time_constraints = ''thursday'', subject = ''Project sync'', pr_From = ''a@x.com''\<rparr>
        [(''a@x.com'', []), (''b@x.com'', [busy_from ''10:00'' ''11:00'' ''Client call''])]
        30 (readings [''2025-07-14T09:15:20'']))
     = Inr \<lparr>action = ''schedule_organizer_first'',
            recommended_time = ''2025-07-17T10:30:20+05:30'',
            participants_to_include = [''a@x.com'', ''a@x.com''],
            reason = ''Scheduling with organizer and available participants first. ''
                     @ ''Will arrange separate time with b@x.com.'',
            meeting_duration = 30, follow_up_needed = None,
            follow_up_meetings =
              Some [\<lparr>fu_participants = [''a@x.com'', ''b@x.com''],
                     fu_time = ''2025-07-14T11:00:00+05:30'',
                     fu_reason = ''Follow-up meeting with previously busy participants''\<rparr>],
            reschedule_needed = None\<rparr>
   \<and> ''a@x.com'' \<in> set (available_participants (analyze_conflicts
        [(''a@x.com'', []), (''b@x.com'', [busy_from ''10:00'' ''11:00'' ''Client call''])]))
   \<and> \<not> distinct [''a@x.com'', ''a@x.com'']
   \<and> on_result out_Attendees (format_output fromisoformat remdups
        \<lparr>Request_id = Some ''r1'', Datetime = Some ''2025-07-14T09:00:00'', Location = Some ''IISc'',
         From = Some ''a@x.com'', req_Attendees = Some [''b@x.com''],
         Subject = Some ''Project sync'',
         EmailContent = Some ''Let us meet on Thursday for 30 minutes''\<rparr>
        \<lparr>action = ''schedule_organizer_first'',
            recommended_time = ''2025-07-17T10:30:20+05:30'',
            participants_to_include = [''a@x.com'', ''a@x.com''],
            reason = ''Scheduling with organizer and available participants first. ''
                     @ ''Will arrange separate time with b@x.com.'',
            meeting_duration = 30, follow_up_needed = None,
            follow_up_meetings =
              Some [\<lparr>fu_participants = [''a@x.com'', ''b@x.com''],
                     fu_time = ''2025-07-14T11:00:00+05:30'',
                     fu_reason = ''Follow-up meeting with previously busy participants''\<rparr>],
            reschedule_needed = None\<rparr>
        [(''a@x.com'', []), (''b@x.com'', [busy_from ''10:00'' ''11:00'' ''Client call''])])
     = Some [\<lparr>email = ''a@x.com'',
               events = Some [\<lparr>StartTime = ''2025-07-17T10:30:20+05:30'',
                                EndTime = ''2025-07-17T11:00:20+05:30'', NumAttendees = 2,
                                Attendees = [''a@x.com'', ''a@x.com''],
                                Summary = ''Project sync''\<rparr>]\<rparr>,
             \<lparr>email = ''b@x.com'',
               events = Some [busy_from ''10:00'' ''11:00'' ''Client call'']\<rparr>]"
proof -
  let ?pr = "\<lparr>participants = [''a@x.com'', ''b@x.com''], pr_meeting_duration = 30,
         time_constraints = ''thursday'', subject = ''Project sync'', pr_From = ''a@x.com''\<rparr>"
  let ?m = "[(''a@x.com'', []), (''b@x.com'', [busy_from ''10:00'' ''11:00'' ''Client call''])]"
  let ?res = "\<lparr>action = ''schedule_organizer_first'',
            recommended_time = ''2025-07-17T10:30:20+05:30'',
            participants_to_include = [''a@x.com'', ''a@x.com''],
            reason = ''Scheduling with organizer and available participants first. ''
                     @ ''Will arrange separate time with b@x.com.'',
            meeting_duration = 30, follow_up_needed = None,
            follow_up_meetings =
              Some [\<lparr>fu_participants = [''a@x.com'', ''b@x.com''],
                     fu_time = ''2025-07-14T11:00:00+05:30'',
                     fu_reason = ''Follow-up meeting with previously busy participants''\<rparr>],
            reschedule_needed = None\<rparr>"
  have h1: "fst (resolve_scheduling_conflicts ?pr ?m 30 (readings [''2025-07-14T09:15:20''])) = Inr ?res"
    by code_simp
  have h2: "action ?res = ''schedule_organizer_first''" by simp
  have av: "''a@x.com'' \<in> set (available_participants (analyze_conflicts ?m))"
    by code_simp
  have "pr_From ?pr \<in> set (available_participants (analyze_conflicts ?m))
          \<longrightarrow> \<not> distinct (participants_to_include ?res)"
    using organizer_first_duplicates [OF h1 h2] by blast
  then have nd: "\<not> distinct [''a@x.com'', ''a@x.com'']" using av by simp
  have out: "on_result out_Attendees (format_output fromisoformat remdups
        \<lparr>Request_id = Some ''r1'', Datetime = Some ''2025-07-14T09:00:00'', Location = Some ''IISc'',
         From = Some ''a@x.com'', req_Attendees = Some [''b@x.com''],
         Subject = Some ''Project sync'',
         EmailContent = Some ''Let us meet on Thursday for 30 minutes''\<rparr>
        ?res ?m)
     = Some [\<lparr>email = ''a@x.com'',
               events = Some [\<lparr>StartTime = ''2025-07-17T10:30:20+05:30'',
                                EndTime = ''2025-07-17T11:00:20+05:30'', NumAttendees = 2,
                                Attendees = [''a@x.com'', ''a@x.com''],
                                Summary = ''Project sync''\<rparr>]\<rparr>,
             \<lparr>email = ''b@x.com'',
               events = Some [busy_from ''10:00'' ''11:00'' ''Client call'']\<rparr>]"
    by code_simp
  show ?thesis by (intro conjI) (rule h1, rule av, rule nd, rule out)
qed

section \<open>A recommended start that does not parse\<close>

text \<open>
  C6, as amended. When the recommended start of a decision does not parse, the assembler
  raises nothing for it: \<open>_calculate_end_time\<close> catches the exception and falls back to
  the start string, so the response (built whenever the request has a subject) carries the
  unparsed string as \<open>EventStart\<close> and again as \<open>EventEnd\<close>.
\<close>

theorem unparseable_start_is_echoed:
  assumes "parse (replace ''+05:30'' [] (recommended_time res)) = None"
    and "Subject data = Some subj"
  shows "\<exists>out. format_output parse dedup data res cal = Inr out
           \<and> EventStart out = recommended_time res
           \<and> EventEnd out = recommended_time res"
  using assms by (simp add: format_output_def calculate_end_time_def Let_def)

theorem unparseable_start_is_echoed_witness:
  "fromisoformat (replace ''+05:30'' [] ''tomorrow morning'') = None
   \<and> on_result EventEnd (format_output fromisoformat remdups
        \<lparr>Request_id = Some ''r1'', Datetime = Some ''2025-07-14T09:00:00'', Location = Some ''IISc'',
         From = Some ''a@x.com'', req_Attendees = Some [''b@x.com''],
         Subject = Some ''Project sync'', EmailContent = Some ''Let us meet for 30 minutes''\<rparr>
        \<lparr>action = ''schedule_all'', recommended_time = ''tomorrow morning'',
         participants_to_include = [''a@x.com'', ''b@x.com''],
         reason = ''All participants are available at the requested time'',
         meeting_duration = 30, follow_up_needed = None, follow_up_meetings = None,
         reschedule_needed = None\<rparr>
        [(''a@x.com'', []), (''b@x.com'', [])])
      = Some ''tomorrow morning''"
proof -
  let ?data = "\<lparr>Request_id = Some ''r1'', Datetime = Some ''2025-07-14T09:00:00'', Location = Some ''IISc'',
         From = Some ''a@x.com'', req_Attendees = Some [''b@x.com''],
         Subject = Some ''Project sync'', EmailContent = Some ''Let us meet for 30 minutes''\<rparr>"
  let ?res = "\<lparr>action = ''schedule_all'', recommended_time = ''tomorrow morning'',
         participants_to_include = [''a@x.com'', ''b@x.com''],
         reason = ''All participants are available at the requested time'',
         meeting_duration = 30, follow_up_needed = None, follow_up_meetings = None,
         reschedule_needed = None\<rparr>"
  have h0: "fromisoformat (replace ''+05:30'' [] ''tomorrow morning'') = None" by code_simp
  then have h1: "fromisoformat (replace ''+05:30'' [] (recommended_time ?res)) = None" by simp
  have h2: "Subject ?data = Some ''Project sync''" by simp
  obtain out where "format_output fromisoformat remdups ?data ?res [(''a@x.com'', []), (''b@x.com'', [])] = Inr out"
      "EventEnd out = recommended_time ?res"
    using unparseable_start_is_echoed [where parse = fromisoformat and res = ?res
        and data = ?data and dedup = remdups, OF h1 h2]
    by blast
  then have "on_result EventEnd (format_output fromisoformat remdups ?data ?res
               [(''a@x.com'', []), (''b@x.com'', [])]) = Some ''tomorrow morning''"
    by (simp add: on_result_def)
  then show ?thesis using h0 by blast
qed


text \<open>
  C6 as stated fails: for the start ``next Thursday, 10:30'' the assembler returns a response,
  and its end time is that same string.
\<close>

theorem unparseable_start_counterexample:
  "on_result EventEnd (format_output fromisoformat remdups
        \<lparr>Request_id = Some ''r1'', Datetime = Some ''2025-07-14T09:00:00'', Location = Some ''IISc'',
         From = Some ''a@x.com'', req_Attendees = Some [''b@x.com''],
         Subject = Some ''Project sync'', EmailContent = Some ''Let us meet for 30 minutes''\<rparr>
        \<lparr>action = ''schedule_all'', recommended_time = ''next Thursday, 10:30'',
         participants_to_include = [''a@x.com'', ''b@x.com''],
         reason = ''All participants are available at the requested time'',
         meeting_duration = 30, follow_up_needed = None, follow_up_meetings = None,
         reschedule_needed = None\<rparr>
        [(''a@x.com'', []), (''b@x.com'', [])])
      = Some ''next Thursday, 10:30''"
  by code_simp

section \<open>Weekend requests\<close>

lemma weekend_marker:
  "contains ''WEEKEND_MEETING_REQUESTED'' (str_error (ValueError ''WEEKEND_MEETING_REQUESTED''))"
  by code_simp

lemma weekend_keyword:
  "contains ''saturday'' (lower c) \<or> contains ''sunday'' (lower c) \<Longrightarrow> check_weekend_constraint c"
  by (auto simp: check_weekend_constraint_def any_in_def)

lemma weekend_raises:
  assumes "time_constraints pr = ''weekend''
           \<or> contains ''saturday'' (lower (time_constraints pr))
           \<or> contains ''sunday'' (lower (time_constraints pr))"
  shows "fst (get_all_participants_events fetch pr clk) = Inl (ValueError ''WEEKEND_MEETING_REQUESTED'')"
proof (cases "time_constraints pr = ''weekend''")
  case True
  then show ?thesis by (simp add: get_all_participants_events_def)
next
  case False
  then have "check_weekend_constraint (time_constraints pr)"
    using assms weekend_keyword by blast
  then have "fst (get_date_range_from_constraint (time_constraints pr) (pr_meeting_duration pr) clk) = None"
    by (simp add: get_date_range_from_constraint_def date_range_at_def datetime_now_def Let_def)
  then show ?thesis using False
    by (cases "get_date_range_from_constraint (time_constraints pr) (pr_meeting_duration pr) clk")
       (simp add: get_all_participants_events_def)
qed

text \<open>
  C4. For every request whose parsed time constraint is \<open>weekend\<close>, or mentions Saturday or
  Sunday, the assistant answers with the weekend rejection, whatever the calendars hold (the
  fetch is an argument that the result does not depend on): the fields of the request are
  echoed, \<open>EventStart\<close>, \<open>EventEnd\<close> and \<open>Duration_mins\<close> are empty, and the metadata hold the
  status \<open>rejected\<close>, a reason and a message.
\<close>

theorem weekend_request_rejected:
  assumes "time_constraints (parse_meeting_request ai dedup data) = ''weekend''
           \<or> contains ''saturday'' (lower (time_constraints (parse_meeting_request ai dedup data)))
           \<or> contains ''sunday'' (lower (time_constraints (parse_meeting_request ai dedup data)))"
  shows "fst (your_meeting_assistant ai fetch parse dedup data clk)
           = create_weekend_rejection_response data
       \<and> out_Request_id (fst (your_meeting_assistant ai fetch parse dedup data clk))
           = get_or [] (Request_id data)
       \<and> out_Datetime (fst (your_meeting_assistant ai fetch parse dedup data clk))
           = get_or [] (Datetime data)
       \<and> out_Location (fst (your_meeting_assistant ai fetch parse dedup data clk))
           = get_or [] (Location data)
       \<and> out_From (fst (your_meeting_assistant ai fetch parse dedup data clk))
           = get_or [] (From data)
       \<and> map email (out_Attendees (fst (your_meeting_assistant ai fetch parse dedup data clk)))
           = get_or [] (req_Attendees data)
       \<and> out_Subject (fst (your_meeting_assistant ai fetch parse dedup data clk))
           = get_or [] (Subject data)
       \<and> out_EmailContent (fst (your_meeting_assistant ai fetch parse dedup data clk))
           = get_or [] (EmailContent data)
       \<and> EventStart (fst (your_meeting_assistant ai fetch parse dedup data clk)) = []
       \<and> EventEnd (fst (your_meeting_assistant ai fetch parse dedup data clk)) = []
       \<and> Duration_mins (fst (your_meeting_assistant ai fetch parse dedup data clk)) = []
       \<and> (\<exists>why msg. MetaData (fst (your_meeting_assistant ai fetch parse dedup data clk))
                        = Rejection_meta ''rejected'' why msg \<and> why \<noteq> [] \<and> msg \<noteq> [])"
proof -
  have "fst (get_all_participants_events fetch (parse_meeting_request ai dedup data) clk)
          = Inl (ValueError ''WEEKEND_MEETING_REQUESTED'')"
    using assms by (rule weekend_raises)
  then have r: "fst (your_meeting_assistant ai fetch parse dedup data clk)
          = create_weekend_rejection_response data"
    using weekend_marker
    by (auto simp: your_meeting_assistant_def on_exception_def Let_def split: prod.splits)
  show ?thesis unfolding r
    by (simp add: create_weekend_rejection_response_def comp_def)
qed

theorem weekend_request_rejected_witness:
  "time_constraints (parse_meeting_request None remdups
      \<lparr>Request_id = Some ''r7'', Datetime = Some ''2025-07-14T09:00:00'', Location = Some ''IISc'',
       From = Some ''a@x.com'', req_Attendees = Some [''b@x.com''],
       Subject = Some ''Project sync'', EmailContent = Some ''Can we meet on Saturday for an hour?''\<rparr>)
     = ''weekend''
   \<and> fst (your_meeting_assistant None (fetch_of [(''a@x.com'', []), (''b@x.com'', [])])
        fromisoformat remdups
        \<lparr>Request_id = Some ''r7'', Datetime = Some ''2025-07-14T09:00:00'', Location = Some ''IISc'',
         From = Some ''a@x.com'', req_Attendees = Some [''b@x.com''],
         Subject = Some ''Project sync'', EmailContent = Some ''Can we meet on Saturday for an hour?''\<rparr>
        (readings [''2025-07-14T09:15:20'']))
     = create_weekend_rejection_response
        \<lparr>Request_id = Some ''r7'', Datetime = Some ''2025-07-14T09:00:00'', Location = Some ''IISc'',
         From = Some ''a@x.com'', req_Attendees = Some [''b@x.com''],
         Subject = Some ''Project sync'', EmailContent = Some ''Can we meet on Saturday for an hour?''\<rparr>
   \<and> time_constraints (parse_meeting_request
        (Some (agent_answering \<lparr>ai_meeting_duration = Some 45,
           ai_time_constraints = Some ''Saturday morning'', ai_subject = None\<rparr>)) remdups
        \<lparr>Request_id = Some ''r8'', Datetime = Some ''2025-07-14T09:00:00'', Location = Some ''IISc'',
         From = Some ''a@x.com'', req_Attendees = Some [''b@x.com''],
         Subject = Some ''Project sync'', EmailContent = Some ''Let us catch up when you are back''\<rparr>)
     = ''Saturday morning''
   \<and> fst (your_meeting_assistant
        (Some (agent_answering \<lparr>ai_meeting_duration = Some 45,
           ai_time_constraints = Some ''Saturday morning'', ai_subject = None\<rparr>))
        (fetch_of [(''a@x.com'', []), (''b@x.com'', [])]) fromisoformat remdups
        \<lparr>Request_id = Some ''r8'', Datetime = Some ''2025-07-14T09:00:00'', Location = Some ''IISc'',
         From = Some ''a@x.com'', req_Attendees = Some [''b@x.com''],
         Subject = Some ''Project sync'', EmailContent = Some ''Let us catch up when you are back''\<rparr>
        (readings [''2025-07-14T09:15:20'']))
     = create_weekend_rejection_response
        \<lparr>Request_id = Some ''r8'', Datetime = Some ''2025-07-14T09:00:00'', Location = Some ''IISc'',
         From = Some ''a@x.com'', req_Attendees = Some [''b@x.com''],
         Subject = Some ''Project sync'', EmailContent = Some ''Let us catch up when you are back''\<rparr>"
proof -
  let ?data = "\<lparr>Request_id = Some ''r7'', Datetime = Some ''2025-07-14T09:00:00'', Location = Some ''IISc'',
       From = Some ''a@x.com'', req_Attendees = Some [''b@x.com''],
       Subject = Some ''Project sync'', EmailContent = Some ''Can we meet on Saturday for an hour?''\<rparr>"
  have h: "time_constraints (parse_meeting_request None remdups ?data) = ''weekend''"
    by code_simp
  then have h': "time_constraints (parse_meeting_request None remdups ?data) = ''weekend''
           \<or> contains ''saturday'' (lower (time_constraints (parse_meeting_request None remdups ?data)))
           \<or> contains ''sunday'' (lower (time_constraints (parse_meeting_request None remdups ?data)))"
    by (rule disjI1)
  have a: "fst (your_meeting_assistant None (fetch_of [(''a@x.com'', []), (''b@x.com'', [])])
              fromisoformat remdups ?data (readings [''2025-07-14T09:15:20'']))
            = create_weekend_rejection_response ?data"
    using weekend_request_rejected [OF h'] by blast
  let ?agent = "Some (agent_answering \<lparr>ai_meeting_duration = Some 45,
           ai_time_constraints = Some ''Saturday morning'', ai_subject = None\<rparr>)"
  let ?data' = "\<lparr>Request_id = Some ''r8'', Datetime = Some ''2025-07-14T09:00:00'', Location = Some ''IISc'',
         From = Some ''a@x.com'', req_Attendees = Some [''b@x.com''],
         Subject = Some ''Project sync'', EmailContent = Some ''Let us catch up when you are back''\<rparr>"
  have k: "time_constraints (parse_meeting_request ?agent remdups ?data') = ''Saturday morning''"
    by code_simp
  have "contains ''saturday'' (lower ''Saturday morning'')" by code_simp
  then have k': "time_constraints (parse_meeting_request ?agent remdups ?data') = ''weekend''
           \<or> contains ''saturday'' (lower (time_constraints (parse_meeting_request ?agent remdups ?data')))
           \<or> contains ''sunday'' (lower (time_constraints (parse_meeting_request ?agent remdups ?data')))"
    by (simp only: k) simp
  have b: "fst (your_meeting_assistant ?agent (fetch_of [(''a@x.com'', []), (''b@x.com'', [])])
              fromisoformat remdups ?data' (readings [''2025-07-14T09:15:20'']))
            = create_weekend_rejection_response ?data'"
    using weekend_request_rejected [OF k'] by blast
  show ?thesis by (intro conjI) (rule h, rule a, rule k, rule b)
qed

section \<open>Free slots and the events they may overlap\<close>

text \<open>
  C3. No slot that the finder returns should overlap an input interval, also when the input
  intervals overlap one another. The finder looks only at neighbours in the order of the
  start times and at the end of the last event: for a workshop from 09:00 to 17:00 and a
  stand-up from 10:00 to 11:00 it returns the slot from 11:00 to 11:30, which lies inside the
  workshop; \<open>check_time_conflict\<close> of the same module reports the overlap.
\<close>

theorem free_slot_inside_event:
  "find_free_slots fromisoformat
     [busy_from ''09:00'' ''17:00'' ''Workshop'', busy_from ''10:00'' ''11:00'' ''Standup'']
     30 ''2025-07-17T00:00:00+05:30'' ''2025-07-17T23:59:59+05:30''
     = [\<lparr>slot_start = ''2025-07-17T11:00:00+05:30'', slot_end = ''2025-07-17T11:30:00+05:30''\<rparr>]
   \<and> check_time_conflict fromisoformat
        (StartTime (busy_from ''09:00'' ''17:00'' ''Workshop''))
        (EndTime (busy_from ''09:00'' ''17:00'' ''Workshop''))
        ''2025-07-17T11:00:00+05:30'' ''2025-07-17T11:30:00+05:30''"
  by code_simp

section \<open>The slot before the first event\<close>

text \<open>
  C7. The leading slot from business start should be emitted exactly when the window from
  09:00 to the start of the first event, or the whole business day when there is no event,
  is at least the duration long. The check before the first event is strict, and it never
  looks at the end of the business day. With a stand-up at 09:30 and a duration of 30 the
  window from 09:00 to 09:30 is exactly long enough, and no leading slot is returned; the
  check between two events, with a breakfast until 09:00 put in front, returns that very
  slot. With no events and a duration of 600, more than the business day, the slot from 09:00
  to 19:00 is returned; the check after the last event, for a breakfast until 09:00,
  refuses it. With no events and a duration of 30 the result is the one slot from 09:00 to
  09:30, as claimed.
\<close>

theorem leading_slot_misses_exact_window:
  "find_free_slots fromisoformat [busy_from ''09:30'' ''10:00'' ''Standup''] 30
     ''2025-07-17T00:00:00+05:30'' ''2025-07-17T23:59:59+05:30''
     = [\<lparr>slot_start = ''2025-07-17T10:00:00+05:30'', slot_end = ''2025-07-17T10:30:00+05:30''\<rparr>]
   \<and> find_free_slots fromisoformat
        [busy_from ''08:00'' ''09:00'' ''Breakfast'', busy_from ''09:30'' ''10:00'' ''Standup''] 30
        ''2025-07-17T00:00:00+05:30'' ''2025-07-17T23:59:59+05:30''
     = [\<lparr>slot_start = ''2025-07-17T09:00:00+05:30'', slot_end = ''2025-07-17T09:30:00+05:30''\<rparr>,
        \<lparr>slot_start = ''2025-07-17T10:00:00+05:30'', slot_end = ''2025-07-17T10:30:00+05:30''\<rparr>]
   \<and> find_free_slots fromisoformat [] 600
        ''2025-07-17T00:00:00+05:30'' ''2025-07-17T23:59:59+05:30''
     = [\<lparr>slot_start = ''2025-07-17T09:00:00+05:30'', slot_end = ''2025-07-17T19:00:00+05:30''\<rparr>]
   \<and> find_free_slots fromisoformat [busy_from ''08:00'' ''09:00'' ''Breakfast''] 600
        ''2025-07-17T00:00:00+05:30'' ''2025-07-17T23:59:59+05:30''
     = []
   \<and> find_free_slots fromisoformat [] 30
        ''2025-07-17T00:00:00+05:30'' ''2025-07-17T23:59:59+05:30''
     = [\<lparr>slot_start = ''2025-07-17T09:00:00+05:30'', slot_end = ''2025-07-17T09:30:00+05:30''\<rparr>]"
  by code_simp


section \<open>Additions that leave the range of the library\<close>

lemma free_slots_out_of_range:
  "find_free_slots fromisoformat [] 5000000000
     ''2025-07-17T00:00:00+05:30'' ''2025-07-17T23:59:59+05:30'' = []"
  by code_simp

lemma end_time_out_of_range:
  "calculate_end_time fromisoformat ''9999-12-31T23:30:00+05:30'' 29 = ''9999-12-31T23:59:00+05:30''
   \<and> calculate_end_time fromisoformat ''9999-12-31T23:30:00+05:30'' 30 = ''9999-12-31T23:30:00+05:30''"
  by code_simp

section \<open>Time resolution and the wall clock\<close>

lemma next_is_target:
  assumes "0 \<le> target" "target < 7"
  shows "weekday (dt_add today (days (days_ahead target today))) = target"
proof -
  have "(weekday today + days_ahead target today) mod 7 = target"
    using assms weekday_bounds[of today] by (auto simp: days_ahead_def Let_def)
  then show ?thesis by (simp add: weekday_add_days)
qed

lemma next_thursday_no_weekend: "\<not> is_weekend (fst (get_next_thursday clk))"
  using next_is_target[of 3 "\<lparr>wall = clk 0, utcoffset = None\<rparr>"]
  by (simp add: get_next_thursday_def get_next_def datetime_now_def is_weekend_def)

lemma get_next_reading:
  "clk 0 = clk' 0 \<Longrightarrow> fst (get_next target clk) = fst (get_next target clk')"
  by (simp add: get_next_def datetime_now_def)

lemma date_range_reading:
  assumes "clk 0 = clk' 0"
  shows "fst (get_date_range_from_constraint c d clk) = fst (get_date_range_from_constraint c d clk')"
  using assms by (simp add: get_date_range_from_constraint_def datetime_now_def)

lemma fst_get_next:
  "fst (get_next target clk) = dt_add \<lparr>wall = clk 0, utcoffset = None\<rparr>
      (days (days_ahead target \<lparr>wall = clk 0, utcoffset = None\<rparr>))"
  by (simp add: get_next_def datetime_now_def)

text \<open>The optimal time as a function of the first reading of the clock.\<close>

lemma optimal_time_at:
  "fst (find_optimal_time pr d clk) =
     (let now = \<lparr>wall = clk 0, utcoffset = None\<rparr>;
          c = time_constraints pr;
          next_day = (\<lambda>target. dt_add now (days (days_ahead target now)))
      in if contains ''thursday'' (lower c) then at_time 10 30 (next_day 3)
         else if contains ''monday'' (lower c)
           then (if contains ''9:00'' c then at_time 9 0 (next_day 0) else at_time 10 0 (next_day 0))
         else if contains ''tuesday'' (lower c)
           then (if contains ''11:00'' c then at_time 11 0 (next_day 1) else at_time 10 0 (next_day 1))
         else if contains ''wednesday'' (lower c) then at_time 10 0 (next_day 2)
         else if contains ''friday'' (lower c) then at_time 10 0 (next_day 4)
         else strftime (business_slot (dt_replace None (Some 0) (Some 0) (dt_add now (hours 1)))))"
proof (cases "contains ''thursday'' (lower (time_constraints pr))")
  case True
  have "fst (find_optimal_time pr d clk) = at_time 10 30 (fst (get_next_thursday clk))"
    using True next_thursday_no_weekend[of clk]
    by (simp add: find_optimal_time_def split_def)
  then show ?thesis using True by (simp add: get_next_thursday_def fst_get_next Let_def)
next
  case thu: False
  show ?thesis
  proof (cases "contains ''monday'' (lower (time_constraints pr))")
    case True
    then show ?thesis using thu
      by (simp add: find_optimal_time_def split_def get_next_monday_def fst_get_next Let_def)
  next
    case mon: False
    show ?thesis
    proof (cases "contains ''tuesday'' (lower (time_constraints pr))")
      case True
      then show ?thesis using thu mon
        by (simp add: find_optimal_time_def split_def get_next_tuesday_def fst_get_next Let_def)
    next
      case tue: False
      show ?thesis
      proof (cases "contains ''wednesday'' (lower (time_constraints pr))")
        case True
        then show ?thesis using thu mon tue
          by (simp add: find_optimal_time_def split_def get_next_wednesday_def fst_get_next Let_def)
      next
        case wed: False
        show ?thesis
        proof (cases "contains ''friday'' (lower (time_constraints pr))")
          case True
          then show ?thesis using thu mon tue wed
            by (simp add: find_optimal_time_def split_def get_next_friday_def fst_get_next Let_def)
        next
          case False
          then show ?thesis using thu mon tue wed
            by (simp add: find_optimal_time_def split_def datetime_now_def Let_def)
        qed
      qed
    qed
  qed
qed

lemma optimal_time_reading:
  assumes "clk 0 = clk' 0"
  shows "fst (find_optimal_time pr d clk) = fst (find_optimal_time pr d clk')"
  unfolding optimal_time_at using assms by simp

text \<open>
  C8, as amended. None of the four computations (lookup window, optimal meeting start,
  tomorrow slot, alternative follow-up time) takes a reference instant; each reads the wall
  clock through \<open>datetime.now()\<close>. For fixed declared inputs the result is determined by
  the first reading of the clock that the computation takes: two runs whose first reading
  is the same instant return the same result, whatever the clock shows afterwards.
\<close>

theorem time_resolution_from_one_reading:
  assumes "clk 0 = clk' 0"
  shows "fst (get_date_range_from_constraint c d clk) = fst (get_date_range_from_constraint c d clk')
       \<and> fst (find_optimal_time pr d clk) = fst (find_optimal_time pr d clk')
       \<and> fst (get_tomorrow_time d clk) = fst (get_tomorrow_time d clk')
       \<and> fst (find_alternative_time d clk) = fst (find_alternative_time d clk')"
proof -
  have "fst (get_tomorrow_time d clk) = fst (get_tomorrow_time d clk')"
    using assms by (simp add: get_tomorrow_time_def datetime_now_def)
  moreover have "fst (find_alternative_time d clk) = fst (find_alternative_time d clk')"
    using assms by (simp add: find_alternative_time_def datetime_now_def)
  ultimately show ?thesis
    using assms date_range_reading optimal_time_reading by blast
qed

theorem time_resolution_from_one_reading_witness:
  "readings [''2025-07-14T09:15:20'', ''2025-07-14T09:15:21''] 0
     = readings [''2025-07-14T09:15:20'', ''2025-07-19T23:00:00''] 0
   \<and> fst (find_optimal_time
        \<lparr>participants = [''a@x.com'', ''b@x.com''], pr_meeting_duration = 30,
         time_constraints = ''thursday'', subject = ''Project sync'', pr_From = ''a@x.com''\<rparr>
        30 (readings [''2025-07-14T09:15:20'', ''2025-07-14T09:15:21'']))
     = fst (find_optimal_time
        \<lparr>participants = [''a@x.com'', ''b@x.com''], pr_meeting_duration = 30,
         time_constraints = ''thursday'', subject = ''Project sync'', pr_From = ''a@x.com''\<rparr>
        30 (readings [''2025-07-14T09:15:20'', ''2025-07-19T23:00:00'']))
   \<and> fst (get_date_range_from_constraint ''thursday'' 30
        (readings [''2025-07-14T09:15:20'', ''2025-07-14T09:15:21'']))
     = fst (get_date_range_from_constraint ''thursday'' 30
        (readings [''2025-07-14T09:15:20'', ''2025-07-19T23:00:00'']))"
proof -
  have h: "readings [''2025-07-14T09:15:20'', ''2025-07-14T09:15:21''] 0
     = readings [''2025-07-14T09:15:20'', ''2025-07-19T23:00:00''] 0"
    by code_simp
  show ?thesis
    using h time_resolution_from_one_reading
      [where clk = "readings [''2025-07-14T09:15:20'', ''2025-07-14T09:15:21'']"
         and clk' = "readings [''2025-07-14T09:15:20'', ''2025-07-19T23:00:00'']", OF h]
    by blast
qed


text \<open>
  C8 as stated fails: the results do not depend on the declared inputs only. For the same
  constraint and duration, runs at different readings of the wall clock return different
  windows, starts, tomorrow slots and follow-up times; the optimal start on a weekday even
  carries the seconds of the reading.
\<close>

theorem time_resolution_counterexample:
  "fst (get_date_range_from_constraint ''thursday'' 30 (readings [''2025-07-14T09:15:20'']))
     = Some (''2025-07-17T00:00:00+05:30'', ''2025-07-17T23:59:59+05:30'')
   \<and> fst (get_date_range_from_constraint ''thursday'' 30 (readings [''2025-07-17T09:15:21'']))
     = Some (''2025-07-24T00:00:00+05:30'', ''2025-07-24T23:59:59+05:30'')
   \<and> fst (find_optimal_time
        \<lparr>participants = [''a@x.com'', ''b@x.com''], pr_meeting_duration = 30,
         time_constraints = ''thursday'', subject = ''Project sync'', pr_From = ''a@x.com''\<rparr>
        30 (readings [''2025-07-14T09:15:20'']))
     = ''2025-07-17T10:30:20+05:30''
   \<and> fst (find_optimal_time
        \<lparr>participants = [''a@x.com'', ''b@x.com''], pr_meeting_duration = 30,
         time_constraints = ''thursday'', subject = ''Project sync'', pr_From = ''a@x.com''\<rparr>
        30 (readings [''2025-07-14T09:15:21'']))
     = ''2025-07-17T10:30:21+05:30''
   \<and> fst (get_tomorrow_time 30 (readings [''2025-07-14T09:15:20''])) = ''2025-07-15T10:00:00+05:30''
   \<and> fst (get_tomorrow_time 30 (readings [''2025-07-18T09:15:20''])) = ''2025-07-21T10:00:00+05:30''
   \<and> fst (find_alternative_time 30 (readings [''2025-07-14T09:15:20''])) = ''2025-07-14T11:00:00+05:30''
   \<and> fst (find_alternative_time 30 (readings [''2025-07-14T10:15:20''])) = ''2025-07-14T12:00:00+05:30''"
  by code_simp

end
